theory Spec2Isabelle
  imports Complex_Main "HOL-Library.Multiset"
begin

section \<open>Python values that travel between the layer and its upstream services\<close>

text \<open>
  The orchestration layer (\<^verbatim>\<open>services/user_match_service.py\<close>) owns no data: every value it
  handles is a decoded JSON body of an upstream response, or a payload it sends. A decoded
  body is a Python \<^verbatim>\<open>None\<close>, \<^verbatim>\<open>bool\<close>, \<^verbatim>\<open>int\<close>, \<^verbatim>\<open>float\<close>, \<^verbatim>\<open>str\<close>, \<^verbatim>\<open>list\<close> or \<^verbatim>\<open>dict\<close>. A dict
  is an association list read with \<open>map_of\<close>; a float is the rational it denotes (the
  non-finite floats are left out). A \<^verbatim>\<open>UUID\<close> is carried as the text \<^verbatim>\<open>str(user_id)\<close> yields.
\<close>

datatype json =
    JNull
  | JBool bool
  | JInt int
  | JFloat rat
  | JStr string
  | JList "json list"
  | JObj "(string \<times> json) list"

type_synonym uuid = string

text \<open>
  Exceptions are values. \<open>HTTPError st\<close> is what \<^verbatim>\<open>raise_for_status\<close> raises and carries the
  response (its status); \<open>TransportError\<close> stands for every \<^verbatim>\<open>requests.RequestException\<close>
  raised without a response (connection failure, timeout); \<open>JSONDecodeError\<close> is what
  \<^verbatim>\<open>Response.json()\<close> raises on a body that is not JSON, in \<^verbatim>\<open>requests\<close> a subclass of both
  \<^verbatim>\<open>RequestException\<close> and \<^verbatim>\<open>ValueError\<close>; \<open>ValidationError\<close> is the model validator's, a
  subclass of \<^verbatim>\<open>ValueError\<close>.
\<close>

datatype exn =
    ValueError string
  | RuntimeError string
  | PermissionError string
  | KeyError string
  | TypeError
  | AttributeError
  | IndexError
  | HTTPError nat
  | TransportError
  | JSONDecodeError
  | ValidationError

fun is_ValueError :: "exn \<Rightarrow> bool" where
  "is_ValueError (ValueError _) = True"
| "is_ValueError JSONDecodeError = True"
| "is_ValueError ValidationError = True"
| "is_ValueError _ = False"

fun is_RequestException :: "exn \<Rightarrow> bool" where
  "is_RequestException (HTTPError _) = True"
| "is_RequestException TransportError = True"
| "is_RequestException JSONDecodeError = True"
| "is_RequestException _ = False"

fun is_RuntimeError :: "exn \<Rightarrow> bool" where
  "is_RuntimeError (RuntimeError _) = True"
| "is_RuntimeError _ = False"

fun is_PermissionError :: "exn \<Rightarrow> bool" where
  "is_PermissionError (PermissionError _) = True"
| "is_PermissionError _ = False"

fun is_KeyError :: "exn \<Rightarrow> bool" where
  "is_KeyError (KeyError _) = True"
| "is_KeyError _ = False"

subsection \<open>The Python operations the source applies to decoded bodies\<close>

text \<open>\<^verbatim>\<open>bool(v)\<close>, as \<^verbatim>\<open>if v\<close> and \<^verbatim>\<open>not v\<close> use it.\<close>

fun truthy :: "json \<Rightarrow> bool" where
  "truthy JNull = False"
| "truthy (JBool b) = b"
| "truthy (JInt i) = (i \<noteq> 0)"
| "truthy (JFloat r) = (r \<noteq> 0)"
| "truthy (JStr s) = (s \<noteq> [])"
| "truthy (JList xs) = (xs \<noteq> [])"
| "truthy (JObj kvs) = (kvs \<noteq> [])"

text \<open>\<^verbatim>\<open>v.get(k, d)\<close>: only a dict has the method.\<close>

fun py_get :: "json \<Rightarrow> string \<Rightarrow> json \<Rightarrow> exn + json" where
  "py_get (JObj kvs) k d = Inr (case map_of kvs k of None \<Rightarrow> d | Some v \<Rightarrow> v)"
| "py_get _ k d = Inl AttributeError"

text \<open>\<^verbatim>\<open>v[k]\<close> with a string key: a missing key of a dict is a \<^verbatim>\<open>KeyError\<close>, any other
  value refuses the subscript with a \<^verbatim>\<open>TypeError\<close>.\<close>

fun py_item :: "json \<Rightarrow> string \<Rightarrow> exn + json" where
  "py_item (JObj kvs) k = (case map_of kvs k of None \<Rightarrow> Inl (KeyError k) | Some v \<Rightarrow> Inr v)"
| "py_item _ k = Inl TypeError"

text \<open>\<^verbatim>\<open>len(v)\<close>.\<close>

fun py_len :: "json \<Rightarrow> exn + nat" where
  "py_len (JList xs) = Inr (length xs)"
| "py_len (JObj kvs) = Inr (length kvs)"
| "py_len (JStr s) = Inr (length s)"
| "py_len _ = Inl TypeError"

text \<open>\<^verbatim>\<open>v[0]\<close>: the first element of a list, the first character of a string; a dict decoded
  from JSON has string keys only, so the key \<^verbatim>\<open>0\<close> is missing.\<close>

fun py_first :: "json \<Rightarrow> exn + json" where
  "py_first (JList []) = Inl IndexError"
| "py_first (JList (x # xs)) = Inr x"
| "py_first (JStr []) = Inl IndexError"
| "py_first (JStr (c # cs)) = Inr (JStr [c])"
| "py_first (JObj kvs) = Inl (KeyError ''0'')"
| "py_first _ = Inl TypeError"

text \<open>\<^verbatim>\<open>for x in v\<close>: the elements of a list, the keys of a dict, the characters of a string.\<close>

fun py_iter :: "json \<Rightarrow> exn + json list" where
  "py_iter (JList xs) = Inr xs"
| "py_iter (JObj kvs) = Inr (map (\<lambda>kv. JStr (fst kv)) kvs)"
| "py_iter (JStr s) = Inr (map (\<lambda>c. JStr [c]) s)"
| "py_iter _ = Inl TypeError"

text \<open>\<^verbatim>\<open>v < n\<close> for an int \<^verbatim>\<open>n\<close>: numbers compare by value (\<^verbatim>\<open>bool\<close> is an \<^verbatim>\<open>int\<close>), anything
  else raises \<^verbatim>\<open>TypeError\<close>.\<close>

fun py_lt_int :: "json \<Rightarrow> int \<Rightarrow> exn + bool" where
  "py_lt_int (JInt i) n = Inr (i < n)"
| "py_lt_int (JBool b) n = Inr ((if b then 1 else 0) < n)"
| "py_lt_int (JFloat r) n = Inr (r < of_int n)"
| "py_lt_int _ n = Inl TypeError"

text \<open>\<^verbatim>\<open>str(v)\<close>, also what an f-string writes for \<^verbatim>\<open>{v}\<close>: a string is itself. How Python
  prints the other values is not part of this repository; it is the parameter \<open>rep\<close>.\<close>

fun py_str :: "(json \<Rightarrow> string) \<Rightarrow> json \<Rightarrow> string" where
  "py_str rep (JStr s) = s"
| "py_str rep v = rep v"


section \<open>The \<^verbatim>\<open>requests\<close> calls and the upstream services\<close>

text \<open>
  An outbound call is a record of what the source passes to \<^verbatim>\<open>requests.get\<close>, \<^verbatim>\<open>post\<close>,
  \<^verbatim>\<open>delete\<close> or \<^verbatim>\<open>patch\<close>: the URL, the \<^verbatim>\<open>json=\<close> body when there is one, and the \<^verbatim>\<open>timeout=\<close>
  argument when there is one. The two upstream services are not part of the repository: they
  are a parameter \<open>env\<close> that answers a call knowing every call issued before it (the
  trace), so an answer may depend on what the layer did earlier. Each call appends itself to
  the trace.
\<close>

datatype http_method = GET | POST | DELETE | PATCH

record request =
  req_method :: http_method
  req_url :: string
  req_json :: "json option"
  req_timeout :: "nat option"

text \<open>\<open>NoResponse\<close>: the call raised without a response. \<open>Response st b\<close>: a response with
  status \<open>st\<close> whose body decodes to \<open>b\<close> (\<open>None\<close> when it is not JSON).\<close>

datatype outcome = NoResponse | Response nat "json option"

type_synonym trace = "request list"
type_synonym upstream = "trace \<Rightarrow> request \<Rightarrow> outcome"

text \<open>\<^verbatim>\<open>REQUEST_TIMEOUT = 5\<close>\<close>

definition REQUEST_TIMEOUT :: nat where
  "REQUEST_TIMEOUT = 5"

text \<open>\<^verbatim>\<open>Response.raise_for_status()\<close> raises for a status from 400 to 599.\<close>

definition is_error_status :: "nat \<Rightarrow> bool" where
  "is_error_status st = (400 \<le> st \<and> st < 600)"

text \<open>The pattern \<^verbatim>\<open>r = requests.get(...); r.raise_for_status(); r.json()\<close>, on the outcome of
  the call.\<close>

fun checked_json :: "outcome \<Rightarrow> exn + json" where
  "checked_json NoResponse = Inl TransportError"
| "checked_json (Response st b) =
     (if is_error_status st then Inl (HTTPError st)
      else case b of None \<Rightarrow> Inl JSONDecodeError | Some v \<Rightarrow> Inr v)"

text \<open>
  The handlers test \<^verbatim>\<open>hasattr(e, "response") and e.response\<close>. Every \<^verbatim>\<open>RequestException\<close> has
  the attribute; it is \<^verbatim>\<open>None\<close> unless the exception carries a response. The truth value of
  a \<^verbatim>\<open>requests.Response\<close> is its \<^verbatim>\<open>ok\<close> property (\<^verbatim>\<open>Response.__bool__\<close> returns \<^verbatim>\<open>self.ok\<close>),
  which is false exactly when \<^verbatim>\<open>raise_for_status\<close> would raise.
\<close>

fun response_of :: "exn \<Rightarrow> nat option" where
  "response_of (HTTPError st) = Some st"
| "response_of _ = None"

definition response_truthy :: "exn \<Rightarrow> bool" where
  "response_truthy e = (case response_of e of None \<Rightarrow> False | Some st \<Rightarrow> \<not> is_error_status st)"

text \<open>\<^verbatim>\<open>hasattr(e, "response") and e.response and e.response.status_code == code\<close>\<close>

definition response_has_status :: "exn \<Rightarrow> nat \<Rightarrow> bool" where
  "response_has_status e code = (response_truthy e \<and> response_of e = Some code)"

text \<open>The handler pair
  \<^verbatim>\<open>except ValueError: raise\<close> / \<^verbatim>\<open>except requests.RequestException as e: raise RuntimeError(...)\<close>:
  the first matching clause wins, any other exception passes through.\<close>

definition reraise_value_wrap_request :: "exn \<Rightarrow> exn" where
  "reraise_value_wrap_request e =
     (if is_ValueError e then e
      else if is_RequestException e then RuntimeError ''Service communication error''
      else e)"

text \<open>A \<^verbatim>\<open>try\<close> whose handlers turn an exception \<open>e\<close> into \<open>h e\<close>; the calls issued stay
  issued.\<close>

definition except_with ::
  "(exn \<Rightarrow> exn) \<Rightarrow> (exn + 'a) \<times> trace \<Rightarrow> (exn + 'a) \<times> trace" where
  "except_with h run =
     (case run of (Inl e, tr') \<Rightarrow> (Inl (h e), tr') | (Inr r, tr') \<Rightarrow> (Inr r, tr'))"

section \<open>The orchestration functions\<close>

subsection \<open>\<^verbatim>\<open>get_user_pool_from_service\<close>\<close>

record user_pool_read =
  pool_id :: json
  pool_name :: json
  location :: json
  member_count :: json
  joined_at :: json
  user_id :: json

text \<open>Step 3 of the function, the returned dict: the entries are evaluated in the order
  written, so the first failing subscript decides the exception.\<close>

definition merge_pool_member :: "json \<Rightarrow> json \<Rightarrow> exn + user_pool_read" where
  "merge_pool_member user_pool user_member =
     (case py_item user_pool ''id'' of Inl e \<Rightarrow> Inl e | Inr pid \<Rightarrow>
     (case py_item user_pool ''name'' of Inl e \<Rightarrow> Inl e | Inr pname \<Rightarrow>
     (case py_get user_pool ''location'' JNull of Inl e \<Rightarrow> Inl e | Inr loc \<Rightarrow>
     (case py_get user_pool ''member_count'' JNull of Inl e \<Rightarrow> Inl e | Inr cnt \<Rightarrow>
     (case py_item user_member ''joined_at'' of Inl e \<Rightarrow> Inl e | Inr joined \<Rightarrow>
     (case py_item user_member ''user_id'' of Inl e \<Rightarrow> Inl e | Inr uid \<Rightarrow>
        Inr \<lparr>pool_id = pid, pool_name = pname, location = loc, member_count = cnt,
             joined_at = joined, user_id = uid\<rparr>))))))"

text \<open>The URL of step 1 and of step 2.\<close>

definition members_lookup_request :: "string \<Rightarrow> uuid \<Rightarrow> request" where
  "members_lookup_request pools_service_url uid =
     \<lparr>req_method = GET, req_url = pools_service_url @ ''/pools/members?user_id='' @ uid,
      req_json = None, req_timeout = Some REQUEST_TIMEOUT\<rparr>"

definition pool_details_request :: "(json \<Rightarrow> string) \<Rightarrow> string \<Rightarrow> json \<Rightarrow> request" where
  "pool_details_request rep pools_service_url pid =
     \<lparr>req_method = GET, req_url = pools_service_url @ ''/pools/'' @ py_str rep pid,
      req_json = None, req_timeout = Some REQUEST_TIMEOUT\<rparr>"

text \<open>The body of the \<^verbatim>\<open>try\<close>.\<close>

definition get_user_pool_try ::
  "upstream \<Rightarrow> (json \<Rightarrow> string) \<Rightarrow> uuid \<Rightarrow> string \<Rightarrow> trace \<Rightarrow> (exn + user_pool_read) \<times> trace" where
  "get_user_pool_try env rep uid pools_service_url tr =
     (let members_request = members_lookup_request pools_service_url uid;
          tr1 = tr @ [members_request]
      in case checked_json (env tr members_request) of Inl e \<Rightarrow> (Inl e, tr1) | Inr members \<Rightarrow>
         (if \<not> truthy members then (Inl (ValueError ''User is not a member of any pool''), tr1)
          else case py_len members of Inl e \<Rightarrow> (Inl e, tr1) | Inr n \<Rightarrow>
         (if n = 0 then (Inl (ValueError ''User is not a member of any pool''), tr1)
          else case py_first members of Inl e \<Rightarrow> (Inl e, tr1) | Inr user_member \<Rightarrow>
         (case py_get user_member ''pool_id'' JNull of Inl e \<Rightarrow> (Inl e, tr1) | Inr pid \<Rightarrow>
         (let pool_request = pool_details_request rep pools_service_url pid;
              tr2 = tr1 @ [pool_request]
          in case checked_json (env tr1 pool_request) of Inl e \<Rightarrow> (Inl e, tr2) | Inr user_pool \<Rightarrow>
             (merge_pool_member user_pool user_member, tr2))))))"

definition get_user_pool_from_service ::
  "upstream \<Rightarrow> (json \<Rightarrow> string) \<Rightarrow> uuid \<Rightarrow> string \<Rightarrow> trace \<Rightarrow> (exn + user_pool_read) \<times> trace" where
  "get_user_pool_from_service env rep uid pools_service_url tr =
     except_with reraise_value_wrap_request
       (get_user_pool_try env rep uid pools_service_url tr)"


subsection \<open>\<^verbatim>\<open>add_user_to_pool_service\<close>\<close>

text \<open>
  \<^verbatim>\<open>pools = [p for p in pools if p.get("member_count", 0) < max_pool_size]\<close>:
  the comprehension visits the listed pools in order; an element without \<^verbatim>\<open>get\<close>, or a
  count that does not compare with an int, raises and ends the request.
\<close>

definition pool_has_room :: "int \<Rightarrow> json \<Rightarrow> exn + bool" where
  "pool_has_room max_pool_size p =
     (case py_get p ''member_count'' (JInt 0) of Inl e \<Rightarrow> Inl e
      | Inr cnt \<Rightarrow> py_lt_int cnt max_pool_size)"

fun filter_full_pools :: "int \<Rightarrow> json list \<Rightarrow> exn + json list" where
  "filter_full_pools max_pool_size [] = Inr []"
| "filter_full_pools max_pool_size (p # ps) =
     (case pool_has_room max_pool_size p of Inl e \<Rightarrow> Inl e | Inr keep \<Rightarrow>
     (case filter_full_pools max_pool_size ps of Inl e \<Rightarrow> Inl e
      | Inr qs \<Rightarrow> Inr (if keep then p # qs else qs)))"

text \<open>
  The module \<^verbatim>\<open>random\<close> is a parameter too: \<open>rnd i\<close> is the \<open>i\<close>-th raw value the generator
  hands out, reduced to the range asked for. \<^verbatim>\<open>random.choice(xs)\<close> is \<^verbatim>\<open>xs[randbelow(len(xs))]\<close>
  on a non-empty list.
\<close>

definition random_choice :: "(nat \<Rightarrow> nat) \<Rightarrow> 'a list \<Rightarrow> 'a" where
  "random_choice rnd xs = xs ! (rnd 0 mod length xs)"

definition list_pools_request :: "string \<Rightarrow> string \<Rightarrow> request" where
  "list_pools_request pools_service_url loc =
     \<lparr>req_method = GET, req_url = pools_service_url @ ''/pools/?location='' @ loc,
      req_json = None, req_timeout = Some REQUEST_TIMEOUT\<rparr>"

text \<open>\<^verbatim>\<open>pool_name = f"Pool for {location}"\<close>\<close>

definition new_pool_name :: "string \<Rightarrow> string" where
  "new_pool_name loc = ''Pool for '' @ loc"

definition create_pool_request :: "string \<Rightarrow> string \<Rightarrow> request" where
  "create_pool_request pools_service_url loc =
     \<lparr>req_method = POST, req_url = pools_service_url @ ''/pools/'',
      req_json = Some (JObj [(''name'', JStr (new_pool_name loc)), (''location'', JStr loc)]),
      req_timeout = Some REQUEST_TIMEOUT\<rparr>"

definition member_payload :: "uuid \<Rightarrow> rat option \<Rightarrow> rat option \<Rightarrow> json" where
  "member_payload uid coord_x coord_y =
     JObj ([(''user_id'', JStr uid)]
           @ (case coord_x of None \<Rightarrow> [] | Some x \<Rightarrow> [(''coord_x'', JFloat x)])
           @ (case coord_y of None \<Rightarrow> [] | Some y \<Rightarrow> [(''coord_y'', JFloat y)]))"

definition add_member_request ::
  "(json \<Rightarrow> string) \<Rightarrow> string \<Rightarrow> json \<Rightarrow> uuid \<Rightarrow> rat option \<Rightarrow> rat option \<Rightarrow> request" where
  "add_member_request rep pools_service_url pid uid coord_x coord_y =
     \<lparr>req_method = POST,
      req_url = pools_service_url @ ''/pools/'' @ py_str rep pid @ ''/members'',
      req_json = Some (member_payload uid coord_x coord_y),
      req_timeout = Some REQUEST_TIMEOUT\<rparr>"

record user_pool_response =
  upr_user_id :: uuid
  upr_pool_id :: json
  upr_location :: string
  upr_member :: json

text \<open>\<^verbatim>\<open>isinstance(v, dict)\<close>; the test \<^verbatim>\<open>isinstance(v, list)\<close> is a case distinction on the
  body below.\<close>

fun is_dict :: "json \<Rightarrow> bool" where
  "is_dict (JObj kvs) = True"
| "is_dict _ = False"

text \<open>The first half of the \<^verbatim>\<open>try\<close>: the pool the user will join, selected or created.\<close>

definition choose_or_create_pool ::
  "upstream \<Rightarrow> (nat \<Rightarrow> nat) \<Rightarrow> string \<Rightarrow> string \<Rightarrow> int \<Rightarrow> trace \<Rightarrow> (exn + json) \<times> trace" where
  "choose_or_create_pool env rnd loc pools_service_url max_pool_size tr =
     (let pools_request = list_pools_request pools_service_url loc;
          tr1 = tr @ [pools_request]
      in case checked_json (env tr pools_request) of Inl e \<Rightarrow> (Inl e, tr1) | Inr listed \<Rightarrow>
         (case listed of
            JList ps \<Rightarrow>
              (case filter_full_pools max_pool_size ps of Inl e \<Rightarrow> (Inl e, tr1) | Inr pools \<Rightarrow>
              (if pools = [] then
                 (let pool_request = create_pool_request pools_service_url loc;
                      tr2 = tr1 @ [pool_request]
                  in case checked_json (env tr1 pool_request) of Inl e \<Rightarrow> (Inl e, tr2)
                     | Inr pool \<Rightarrow>
                        (if is_dict pool then (Inr pool, tr2)
                         else (Inl (RuntimeError ''Unexpected pool response format''), tr2)))
               else (Inr (random_choice rnd pools), tr1)))
          | _ \<Rightarrow> (Inl (RuntimeError ''Unexpected response format from pools service''), tr1)))"

text \<open>The second half: \<^verbatim>\<open>pool["id"]\<close> names the pool in the URL of the call that adds the
  member.\<close>

definition join_pool ::
  "upstream \<Rightarrow> (json \<Rightarrow> string) \<Rightarrow> uuid \<Rightarrow> string \<Rightarrow> rat option \<Rightarrow> rat option \<Rightarrow> string \<Rightarrow> json
     \<Rightarrow> trace \<Rightarrow> (exn + user_pool_response) \<times> trace" where
  "join_pool env rep uid loc coord_x coord_y pools_service_url pool tr =
     (case py_item pool ''id'' of Inl e \<Rightarrow> (Inl e, tr) | Inr pid \<Rightarrow>
     (let member_request = add_member_request rep pools_service_url pid uid coord_x coord_y;
          tr1 = tr @ [member_request]
      in case checked_json (env tr member_request) of Inl e \<Rightarrow> (Inl e, tr1)
         | Inr member \<Rightarrow>
            (Inr \<lparr>upr_user_id = uid, upr_pool_id = pid, upr_location = loc,
                  upr_member = member\<rparr>, tr1)))"

definition add_user_to_pool_try ::
  "upstream \<Rightarrow> (json \<Rightarrow> string) \<Rightarrow> (nat \<Rightarrow> nat) \<Rightarrow> uuid \<Rightarrow> string \<Rightarrow> rat option \<Rightarrow> rat option
     \<Rightarrow> string \<Rightarrow> int \<Rightarrow> trace \<Rightarrow> (exn + user_pool_response) \<times> trace" where
  "add_user_to_pool_try env rep rnd uid loc coord_x coord_y pools_service_url max_pool_size tr =
     (case choose_or_create_pool env rnd loc pools_service_url max_pool_size tr of
        (Inl e, tr1) \<Rightarrow> (Inl e, tr1)
      | (Inr pool, tr1) \<Rightarrow> join_pool env rep uid loc coord_x coord_y pools_service_url pool tr1)"

text \<open>\<^verbatim>\<open>except KeyError\<close> / \<^verbatim>\<open>except requests.RequestException\<close>, both raising
  \<^verbatim>\<open>RuntimeError\<close>.\<close>

definition wrap_key_or_request :: "exn \<Rightarrow> exn" where
  "wrap_key_or_request e =
     (if is_KeyError e then RuntimeError ''Missing expected field in response''
      else if is_RequestException e then RuntimeError ''Service communication error''
      else e)"

definition add_user_to_pool_service ::
  "upstream \<Rightarrow> (json \<Rightarrow> string) \<Rightarrow> (nat \<Rightarrow> nat) \<Rightarrow> uuid \<Rightarrow> string \<Rightarrow> rat option \<Rightarrow> rat option
     \<Rightarrow> string \<Rightarrow> int \<Rightarrow> trace \<Rightarrow> (exn + user_pool_response) \<times> trace" where
  "add_user_to_pool_service env rep rnd uid loc coord_x coord_y pools_service_url max_pool_size tr =
     except_with wrap_key_or_request
       (add_user_to_pool_try env rep rnd uid loc coord_x coord_y pools_service_url
          max_pool_size tr)"

subsection \<open>\<^verbatim>\<open>get_user_matches_from_service\<close>\<close>

definition list_matches_request :: "string \<Rightarrow> uuid \<Rightarrow> request" where
  "list_matches_request matches_service_url uid =
     \<lparr>req_method = GET, req_url = matches_service_url @ ''/matches/?user_id='' @ uid,
      req_json = None, req_timeout = Some REQUEST_TIMEOUT\<rparr>"

text \<open>The handler
  \<^verbatim>\<open>if hasattr(e, "response") and e.response and e.response.status_code == 404: return []\<close>
  followed by \<^verbatim>\<open>raise RuntimeError(...)\<close>. Only a \<^verbatim>\<open>RequestException\<close> reaches it.\<close>

definition get_user_matches_from_service ::
  "upstream \<Rightarrow> uuid \<Rightarrow> string \<Rightarrow> trace \<Rightarrow> (exn + json) \<times> trace" where
  "get_user_matches_from_service env uid matches_service_url tr =
     (let matches_request = list_matches_request matches_service_url uid;
          tr1 = tr @ [matches_request]
      in case checked_json (env tr matches_request) of
           Inr matches \<Rightarrow> (Inr matches, tr1)
         | Inl e \<Rightarrow>
            (if is_RequestException e then
               (if response_has_status e 404 then (Inr (JList []), tr1)
                else (Inl (RuntimeError ''Service communication error''), tr1))
             else (Inl e, tr1)))"


subsection \<open>\<^verbatim>\<open>generate_matches_for_user_service\<close>\<close>

text \<open>Step 2 lists the members of the pool. The source passes no \<^verbatim>\<open>timeout=\<close> to this call.\<close>

definition pool_members_request :: "(json \<Rightarrow> string) \<Rightarrow> string \<Rightarrow> json \<Rightarrow> request" where
  "pool_members_request rep pools_service_url pid =
     \<lparr>req_method = GET,
      req_url = pools_service_url @ ''/pools/'' @ py_str rep pid @ ''/members'',
      req_json = None, req_timeout = None\<rparr>"

text \<open>\<^verbatim>\<open>[member for member in pool_members if member.get("user_id") != str(user_id)]\<close>\<close>

fun exclude_user :: "uuid \<Rightarrow> json list \<Rightarrow> exn + json list" where
  "exclude_user uid [] = Inr []"
| "exclude_user uid (m # ms) =
     (case py_get m ''user_id'' JNull of Inl e \<Rightarrow> Inl e | Inr peer \<Rightarrow>
     (case exclude_user uid ms of Inl e \<Rightarrow> Inl e
      | Inr others \<Rightarrow> Inr (if peer \<noteq> JStr uid then m # others else others)))"

text \<open>
  Drawing \<open>k\<close> elements without replacement: each draw takes the element at a position of
  what is left and removes that position. \<^verbatim>\<open>random.sample(xs, k)\<close> is this, after its check
  \<^verbatim>\<open>0 <= k <= len(xs)\<close> (a \<^verbatim>\<open>ValueError\<close> otherwise).
\<close>

definition remove_nth :: "nat \<Rightarrow> 'a list \<Rightarrow> 'a list" where
  "remove_nth i xs = take i xs @ drop (Suc i) xs"

fun draw_distinct :: "(nat \<Rightarrow> nat) \<Rightarrow> 'a list \<Rightarrow> nat \<Rightarrow> 'a list" where
  "draw_distinct rnd xs 0 = []"
| "draw_distinct rnd xs (Suc k) =
     (if xs = [] then []
      else let j = rnd 0 mod length xs
           in xs ! j # draw_distinct (\<lambda>i. rnd (Suc i)) (remove_nth j xs) k)"

definition random_sample :: "(nat \<Rightarrow> nat) \<Rightarrow> 'a list \<Rightarrow> int \<Rightarrow> exn + 'a list" where
  "random_sample rnd xs k =
     (if k < 0 \<or> int (length xs) < k
      then Inl (ValueError ''Sample larger than population or is negative'')
      else Inr (draw_distinct rnd xs (nat k)))"

definition create_match_request ::
  "(json \<Rightarrow> string) \<Rightarrow> string \<Rightarrow> json \<Rightarrow> uuid \<Rightarrow> json \<Rightarrow> request" where
  "create_match_request rep matches_service_url pid uid peer =
     \<lparr>req_method = POST, req_url = matches_service_url @ ''/matches/'',
      req_json = Some (JObj [(''pool_id'', JStr (py_str rep pid)),
                             (''user1_id'', JStr uid),
                             (''user2_id'', JStr (py_str rep peer))]),
      req_timeout = Some REQUEST_TIMEOUT\<rparr>"

text \<open>
  The helper \<^verbatim>\<open>create_match(member)\<close>: a \<^verbatim>\<open>RequestException\<close> of the call, of
  \<^verbatim>\<open>raise_for_status\<close> or of \<^verbatim>\<open>json()\<close> is logged and the helper returns \<^verbatim>\<open>None\<close>; any other
  exception leaves the helper.
\<close>

definition create_match ::
  "upstream \<Rightarrow> (json \<Rightarrow> string) \<Rightarrow> string \<Rightarrow> json \<Rightarrow> uuid \<Rightarrow> json \<Rightarrow> trace
     \<Rightarrow> (exn + json option) \<times> trace" where
  "create_match env rep matches_service_url pid uid member tr =
     (case py_get member ''user_id'' JNull of Inl e \<Rightarrow> (Inl e, tr) | Inr peer \<Rightarrow>
     (let match_request = create_match_request rep matches_service_url pid uid peer
      in (case checked_json (env tr match_request) of
            Inr m \<Rightarrow> Inr (Some m)
          | Inl e \<Rightarrow> (if is_RequestException e then Inr None else Inl e),
          tr @ [match_request])))"

text \<open>
  \<^verbatim>\<open>executor.submit(create_match, member)\<close> for every selected member. The five workers issue
  their calls concurrently; the model lets the calls reach the upstream in the order of
  submission and keeps what each future holds, a result or an exception.
\<close>

fun submit_all ::
  "upstream \<Rightarrow> (json \<Rightarrow> string) \<Rightarrow> string \<Rightarrow> json \<Rightarrow> uuid \<Rightarrow> json list \<Rightarrow> trace
     \<Rightarrow> (exn + json option) list \<times> trace" where
  "submit_all env rep matches_service_url pid uid [] tr = ([], tr)"
| "submit_all env rep matches_service_url pid uid (m # ms) tr =
     (case create_match env rep matches_service_url pid uid m tr of (r, tr1) \<Rightarrow>
     (case submit_all env rep matches_service_url pid uid ms tr1 of (rs, tr2) \<Rightarrow>
        (r # rs, tr2)))"

text \<open>\<^verbatim>\<open>as_completed\<close> yields the futures in the order they finish, which the schedule
  \<open>order\<close> decides: some permutation of the futures submitted.\<close>

definition as_completed :: "(nat \<Rightarrow> nat) \<Rightarrow> 'a list \<Rightarrow> 'a list" where
  "as_completed order futures = draw_distinct order futures (length futures)"

text \<open>
  \<^verbatim>\<open>match = future.result()\<close> re-raises what the helper raised;
  \<^verbatim>\<open>if match: created_matches.append(match)\<close> keeps the truthy results.
\<close>

fun collect_created :: "(exn + json option) list \<Rightarrow> exn + json list" where
  "collect_created [] = Inr []"
| "collect_created (Inl e # rs) = Inl e"
| "collect_created (Inr None # rs) = collect_created rs"
| "collect_created (Inr (Some m) # rs) =
     (case collect_created rs of Inl e \<Rightarrow> Inl e
      | Inr ms \<Rightarrow> Inr (if truthy m then m # ms else ms))"

text \<open>
  \<^verbatim>\<open>MatchGet\<close> (\<^verbatim>\<open>models/match.py\<close>) is not among the source files: the validator is the
  parameter \<open>MatchGet\<close>, from the keyword arguments to a validated match or an exception.
  \<^verbatim>\<open>MatchGet(**match)\<close> needs a mapping; a list is replaced by its first element first.
\<close>

fun star_args :: "((string \<times> json) list \<Rightarrow> exn + 'm) \<Rightarrow> json \<Rightarrow> exn + 'm" where
  "star_args MatchGet (JObj kvs) = MatchGet kvs"
| "star_args MatchGet _ = Inl TypeError"

fun validate_match :: "((string \<times> json) list \<Rightarrow> exn + 'm) \<Rightarrow> json \<Rightarrow> exn + 'm" where
  "validate_match MatchGet (JList []) = MatchGet []"
| "validate_match MatchGet (JList (x # xs)) = star_args MatchGet x"
| "validate_match MatchGet m = star_args MatchGet m"

fun validate_all :: "((string \<times> json) list \<Rightarrow> exn + 'm) \<Rightarrow> json list \<Rightarrow> exn + 'm list" where
  "validate_all MatchGet [] = Inr []"
| "validate_all MatchGet (m # ms) =
     (case validate_match MatchGet m of Inl e \<Rightarrow> Inl e | Inr v \<Rightarrow>
     (case validate_all MatchGet ms of Inl e \<Rightarrow> Inl e | Inr vs \<Rightarrow> Inr (v # vs)))"

record 'm generate_matches_response =
  message :: string
  gm_pool_id :: json
  matches_created :: nat
  matches :: "'m list"

text \<open>Steps 1 and 2 and the filter: the pool of the user and its other members.\<close>

definition find_other_members ::
  "upstream \<Rightarrow> (json \<Rightarrow> string) \<Rightarrow> uuid \<Rightarrow> string \<Rightarrow> trace \<Rightarrow> (exn + json \<times> json list) \<times> trace" where
  "find_other_members env rep uid pools_service_url tr =
     (case get_user_pool_from_service env rep uid pools_service_url tr of
        (Inl e, tr1) \<Rightarrow> (Inl e, tr1)
      | (Inr user_pool_data, tr1) \<Rightarrow>
         (let pid = pool_id user_pool_data in
          if \<not> truthy pid
          then (Inl (ValueError ''User is not a member of any pool. Add user to a pool first.''), tr1)
          else
            (let members_request = pool_members_request rep pools_service_url pid;
                 tr2 = tr1 @ [members_request]
             in case checked_json (env tr1 members_request) of Inl e \<Rightarrow> (Inl e, tr2)
                | Inr pool_members \<Rightarrow>
                   (case py_iter pool_members of Inl e \<Rightarrow> (Inl e, tr2) | Inr ms \<Rightarrow>
                   (case exclude_user uid ms of Inl e \<Rightarrow> (Inl e, tr2)
                    | Inr other_members \<Rightarrow> (Inr (pid, other_members), tr2))))))"

text \<open>From the sample to the returned dict.\<close>

definition create_matches ::
  "upstream \<Rightarrow> (json \<Rightarrow> string) \<Rightarrow> (nat \<Rightarrow> nat) \<Rightarrow> (nat \<Rightarrow> nat)
     \<Rightarrow> ((string \<times> json) list \<Rightarrow> exn + 'm) \<Rightarrow> uuid \<Rightarrow> string \<Rightarrow> int \<Rightarrow> json \<Rightarrow> json list
     \<Rightarrow> trace \<Rightarrow> (exn + 'm generate_matches_response) \<times> trace" where
  "create_matches env rep rnd order MatchGet uid matches_service_url max_matches pid
       other_members tr =
     (case random_sample rnd other_members (min max_matches (int (length other_members))) of
        Inl e \<Rightarrow> (Inl e, tr)
      | Inr selected_members \<Rightarrow>
         (case submit_all env rep matches_service_url pid uid selected_members tr of
            (futures, tr1) \<Rightarrow>
         (case collect_created (as_completed order futures) of Inl e \<Rightarrow> (Inl e, tr1)
          | Inr created_matches \<Rightarrow>
         (case validate_all MatchGet created_matches of Inl e \<Rightarrow> (Inl e, tr1)
          | Inr validated_matches \<Rightarrow>
             (Inr \<lparr>message = ''Generated '' @ rep (JInt (int (length validated_matches)))
                               @ '' matches for user '' @ uid,
                   gm_pool_id = pid,
                   matches_created = length validated_matches,
                   matches = validated_matches\<rparr>, tr1)))))"

definition generate_matches_try ::
  "upstream \<Rightarrow> (json \<Rightarrow> string) \<Rightarrow> (nat \<Rightarrow> nat) \<Rightarrow> (nat \<Rightarrow> nat)
     \<Rightarrow> ((string \<times> json) list \<Rightarrow> exn + 'm) \<Rightarrow> uuid \<Rightarrow> string \<Rightarrow> string \<Rightarrow> int
     \<Rightarrow> trace \<Rightarrow> (exn + 'm generate_matches_response) \<times> trace" where
  "generate_matches_try env rep rnd order MatchGet uid matches_service_url pools_service_url
       max_matches tr =
     (case find_other_members env rep uid pools_service_url tr of
        (Inl e, tr1) \<Rightarrow> (Inl e, tr1)
      | (Inr (pid, other_members), tr1) \<Rightarrow>
         (if other_members = []
          then (Inr \<lparr>message = ''No other users in the pool to match with'',
                     gm_pool_id = pid, matches_created = 0, matches = []\<rparr>, tr1)
          else create_matches env rep rnd order MatchGet uid matches_service_url max_matches
                 pid other_members tr1))"

definition generate_matches_for_user_service ::
  "upstream \<Rightarrow> (json \<Rightarrow> string) \<Rightarrow> (nat \<Rightarrow> nat) \<Rightarrow> (nat \<Rightarrow> nat)
     \<Rightarrow> ((string \<times> json) list \<Rightarrow> exn + 'm) \<Rightarrow> uuid \<Rightarrow> string \<Rightarrow> string \<Rightarrow> int
     \<Rightarrow> trace \<Rightarrow> (exn + 'm generate_matches_response) \<times> trace" where
  "generate_matches_for_user_service env rep rnd order MatchGet uid matches_service_url
       pools_service_url max_matches tr =
     except_with reraise_value_wrap_request
       (generate_matches_try env rep rnd order MatchGet uid matches_service_url
          pools_service_url max_matches tr)"


subsection \<open>\<^verbatim>\<open>get_pool_members_from_service\<close>\<close>

definition pool_members_request_timed :: "(json \<Rightarrow> string) \<Rightarrow> string \<Rightarrow> json \<Rightarrow> request" where
  "pool_members_request_timed rep pools_service_url pid =
     \<lparr>req_method = GET,
      req_url = pools_service_url @ ''/pools/'' @ py_str rep pid @ ''/members'',
      req_json = None, req_timeout = Some REQUEST_TIMEOUT\<rparr>"

definition get_pool_members_from_service ::
  "upstream \<Rightarrow> (json \<Rightarrow> string) \<Rightarrow> uuid \<Rightarrow> string \<Rightarrow> trace \<Rightarrow> (exn + json) \<times> trace" where
  "get_pool_members_from_service env rep uid pools_service_url tr =
     (case get_user_pool_from_service env rep uid pools_service_url tr of
        (Inl e, tr1) \<Rightarrow> (Inl (reraise_value_wrap_request e), tr1)
      | (Inr user_pool_data, tr1) \<Rightarrow>
         (let pid = pool_id user_pool_data in
          if \<not> truthy pid then (Inl (ValueError ''User is not a member of any pool''), tr1)
          else
            (let members_request = pool_members_request_timed rep pools_service_url pid;
                 tr2 = tr1 @ [members_request]
             in case checked_json (env tr1 members_request) of
                  Inl e \<Rightarrow> (Inl (reraise_value_wrap_request e), tr2)
                | Inr members \<Rightarrow> (Inr members, tr2))))"

subsection \<open>\<^verbatim>\<open>get_user_decisions_from_service\<close>\<close>

definition decision_request :: "(json \<Rightarrow> string) \<Rightarrow> string \<Rightarrow> json \<Rightarrow> uuid \<Rightarrow> request" where
  "decision_request rep base_url mid uid =
     \<lparr>req_method = GET,
      req_url = base_url @ ''/matches/'' @ py_str rep mid @ ''/decisions/'' @ uid,
      req_json = None, req_timeout = Some REQUEST_TIMEOUT\<rparr>"

text \<open>
  The inner \<^verbatim>\<open>try\<close> of the loop: the decision is kept when the status is 200; a call that
  raises, and a body of a 200 response that is not JSON (\<^verbatim>\<open>json()\<close> raises a
  \<^verbatim>\<open>RequestException\<close>), fall to \<^verbatim>\<open>except requests.RequestException: pass\<close>.
\<close>

definition fetch_decision ::
  "upstream \<Rightarrow> (json \<Rightarrow> string) \<Rightarrow> string \<Rightarrow> uuid \<Rightarrow> json \<Rightarrow> trace \<Rightarrow> json option \<times> trace" where
  "fetch_decision env rep base_url uid mid tr =
     (let request = decision_request rep base_url mid uid
      in (case env tr request of
            NoResponse \<Rightarrow> None
          | Response st b \<Rightarrow> (if st = 200 then b else None),
          tr @ [request]))"

text \<open>The loop \<^verbatim>\<open>for match in matches\<close>, with \<^verbatim>\<open>all_decisions\<close> built front to back.\<close>

fun collect_decisions ::
  "upstream \<Rightarrow> (json \<Rightarrow> string) \<Rightarrow> string \<Rightarrow> uuid \<Rightarrow> json list \<Rightarrow> trace
     \<Rightarrow> (exn + json list) \<times> trace" where
  "collect_decisions env rep base_url uid [] tr = (Inr [], tr)"
| "collect_decisions env rep base_url uid (m # ms) tr =
     (case py_get m ''match_id'' JNull of Inl e \<Rightarrow> (Inl e, tr) | Inr mid \<Rightarrow>
     (if truthy mid then
        (case fetch_decision env rep base_url uid mid tr of (d, tr1) \<Rightarrow>
        (case collect_decisions env rep base_url uid ms tr1 of
           (Inl e, tr2) \<Rightarrow> (Inl e, tr2)
         | (Inr ds, tr2) \<Rightarrow> (Inr (case d of None \<Rightarrow> ds | Some x \<Rightarrow> x # ds), tr2)))
      else collect_decisions env rep base_url uid ms tr))"

definition get_user_decisions_try ::
  "upstream \<Rightarrow> (json \<Rightarrow> string) \<Rightarrow> uuid \<Rightarrow> string \<Rightarrow> trace \<Rightarrow> (exn + json list) \<times> trace" where
  "get_user_decisions_try env rep uid base_url tr =
     (let matches_request = list_matches_request base_url uid;
          tr1 = tr @ [matches_request]
      in case checked_json (env tr matches_request) of Inl e \<Rightarrow> (Inl e, tr1) | Inr user_matches \<Rightarrow>
         (case py_iter user_matches of Inl e \<Rightarrow> (Inl e, tr1)
          | Inr ms \<Rightarrow> collect_decisions env rep base_url uid ms tr1))"

definition get_user_decisions_from_service ::
  "upstream \<Rightarrow> (json \<Rightarrow> string) \<Rightarrow> uuid \<Rightarrow> string \<Rightarrow> trace \<Rightarrow> (exn + json list) \<times> trace" where
  "get_user_decisions_from_service env rep uid base_url tr =
     (case get_user_decisions_try env rep uid base_url tr of
        (Inr ds, tr') \<Rightarrow> (Inr ds, tr')
      | (Inl e, tr') \<Rightarrow>
         (if is_RequestException e then
            (if response_has_status e 404 then (Inr [], tr')
             else (Inl (RuntimeError ''Service communication error''), tr'))
          else (Inl e, tr')))"

subsection \<open>\<^verbatim>\<open>submit_decision_for_user_match\<close>\<close>

definition submit_decision_request :: "string \<Rightarrow> uuid \<Rightarrow> uuid \<Rightarrow> string \<Rightarrow> request" where
  "submit_decision_request matches_service_url uid mid decision =
     \<lparr>req_method = POST, req_url = matches_service_url @ ''/matches/'' @ mid @ ''/decisions'',
      req_json = Some (JObj [(''match_id'', JStr mid), (''user_id'', JStr uid),
                             (''decision'', JStr decision)]),
      req_timeout = Some REQUEST_TIMEOUT\<rparr>"

text \<open>
  The handler: inside \<^verbatim>\<open>if hasattr(e, "response") and e.response:\<close> the status selects the
  exception; outside it, and for any other status, \<^verbatim>\<open>RuntimeError\<close>.
\<close>

definition submit_decision_handler :: "exn \<Rightarrow> exn" where
  "submit_decision_handler e =
     (if is_RequestException e then
        (if response_truthy e \<and> response_of e = Some 400 then ValueError ''Invalid decision data''
         else if response_truthy e \<and> response_of e = Some 403
           then PermissionError ''User is not a participant in this match''
         else if response_truthy e \<and> response_of e = Some 404 then ValueError ''Match not found''
         else RuntimeError ''Service communication error'')
      else e)"

definition submit_decision_for_user_match ::
  "upstream \<Rightarrow> uuid \<Rightarrow> uuid \<Rightarrow> string \<Rightarrow> string \<Rightarrow> trace \<Rightarrow> (exn + json) \<times> trace" where
  "submit_decision_for_user_match env uid mid decision matches_service_url tr =
     (let request = submit_decision_request matches_service_url uid mid decision
      in (case checked_json (env tr request) of
            Inr d \<Rightarrow> Inr d
          | Inl e \<Rightarrow> Inl (submit_decision_handler e),
          tr @ [request]))"

subsection \<open>\<^verbatim>\<open>delete_user_from_pool_service\<close>\<close>

definition delete_member_request :: "string \<Rightarrow> uuid \<Rightarrow> request" where
  "delete_member_request pools_service_url uid =
     \<lparr>req_method = DELETE, req_url = pools_service_url @ ''/pools/members/'' @ uid,
      req_json = None, req_timeout = Some REQUEST_TIMEOUT\<rparr>"

text \<open>The handler shared with step 2 of the coordinate update: a 404 that passes the test on
  \<^verbatim>\<open>e.response\<close> becomes \<^verbatim>\<open>ValueError\<close>, every other \<^verbatim>\<open>RequestException\<close> a
  \<^verbatim>\<open>RuntimeError\<close>.\<close>

definition not_member_handler :: "exn \<Rightarrow> exn" where
  "not_member_handler e =
     (if is_RequestException e then
        (if response_has_status e 404 then ValueError ''User is not a member of any pool''
         else RuntimeError ''Service communication error'')
      else e)"

definition delete_user_from_pool_service ::
  "upstream \<Rightarrow> uuid \<Rightarrow> string \<Rightarrow> trace \<Rightarrow> (exn + json) \<times> trace" where
  "delete_user_from_pool_service env uid pools_service_url tr =
     (let request = delete_member_request pools_service_url uid
      in (case checked_json (env tr request) of
            Inr result \<Rightarrow> Inr result
          | Inl e \<Rightarrow> Inl (not_member_handler e),
          tr @ [request]))"

subsection \<open>\<^verbatim>\<open>update_user_pool_coordinates_service\<close>\<close>

definition coordinates_payload :: "rat option \<Rightarrow> rat option \<Rightarrow> json" where
  "coordinates_payload coord_x coord_y =
     JObj ((case coord_x of None \<Rightarrow> [] | Some x \<Rightarrow> [(''coord_x'', JFloat x)])
           @ (case coord_y of None \<Rightarrow> [] | Some y \<Rightarrow> [(''coord_y'', JFloat y)]))"

definition update_member_request ::
  "(json \<Rightarrow> string) \<Rightarrow> string \<Rightarrow> json \<Rightarrow> uuid \<Rightarrow> rat option \<Rightarrow> rat option \<Rightarrow> request" where
  "update_member_request rep pools_service_url pid uid coord_x coord_y =
     \<lparr>req_method = PATCH,
      req_url = pools_service_url @ ''/pools/'' @ py_str rep pid @ ''/members/'' @ uid,
      req_json = Some (coordinates_payload coord_x coord_y),
      req_timeout = Some REQUEST_TIMEOUT\<rparr>"

definition update_user_pool_coordinates_try ::
  "upstream \<Rightarrow> (json \<Rightarrow> string) \<Rightarrow> uuid \<Rightarrow> rat option \<Rightarrow> rat option \<Rightarrow> string \<Rightarrow> trace
     \<Rightarrow> (exn + user_pool_read) \<times> trace" where
  "update_user_pool_coordinates_try env rep uid coord_x coord_y pools_service_url tr =
     (case get_user_pool_from_service env rep uid pools_service_url tr of
        (Inl e, tr1) \<Rightarrow> (Inl e, tr1)
      | (Inr user_pool_data, tr1) \<Rightarrow>
         (let pid = pool_id user_pool_data in
          if \<not> truthy pid then (Inl (ValueError ''User is not a member of any pool''), tr1)
          else
            (let request = update_member_request rep pools_service_url pid uid coord_x coord_y;
                 tr2 = tr1 @ [request]
             in case checked_json (env tr1 request) of Inl e \<Rightarrow> (Inl e, tr2) | Inr member \<Rightarrow>
                (case py_get member ''joined_at'' JNull of Inl e \<Rightarrow> (Inl e, tr2)
                 | Inr joined \<Rightarrow>
                    (Inr \<lparr>pool_id = pid, pool_name = pool_name user_pool_data,
                          location = location user_pool_data,
                          member_count = member_count user_pool_data,
                          joined_at = joined, user_id = JStr uid\<rparr>, tr2)))))"

definition update_user_pool_coordinates_service ::
  "upstream \<Rightarrow> (json \<Rightarrow> string) \<Rightarrow> uuid \<Rightarrow> rat option \<Rightarrow> rat option \<Rightarrow> string \<Rightarrow> trace
     \<Rightarrow> (exn + user_pool_read) \<times> trace" where
  "update_user_pool_coordinates_service env rep uid coord_x coord_y pools_service_url tr =
     except_with (\<lambda>e. if is_ValueError e then e else not_member_handler e)
       (update_user_pool_coordinates_try env rep uid coord_x coord_y pools_service_url tr)"

section \<open>The HTTP resource layer (\<^verbatim>\<open>resources/user_match.py\<close>)\<close>

text \<open>
  A route returns the value of its orchestration function, or raises an \<^verbatim>\<open>HTTPException\<close>
  with a status chosen by the class of the exception caught; the clauses are tried in the
  order written. The response models of \<^verbatim>\<open>models/user_match.py\<close> are not among the source
  files and are left out: a route's success is the value it returns.
\<close>

datatype 'a http_result = Returned 'a | HTTPException nat

definition get_user_pool ::
  "upstream \<Rightarrow> (json \<Rightarrow> string) \<Rightarrow> string \<Rightarrow> uuid \<Rightarrow> trace \<Rightarrow> user_pool_read http_result \<times> trace" where
  "get_user_pool env rep POOLS_SERVICE_URL uid tr =
     (case get_user_pool_from_service env rep uid POOLS_SERVICE_URL tr of
        (Inr pool_data, tr') \<Rightarrow> (Returned pool_data, tr')
      | (Inl e, tr') \<Rightarrow>
         (if is_ValueError e then HTTPException 404
          else if is_RuntimeError e then HTTPException 502
          else HTTPException 500, tr'))"

definition add_user_to_pool ::
  "upstream \<Rightarrow> (json \<Rightarrow> string) \<Rightarrow> (nat \<Rightarrow> nat) \<Rightarrow> string \<Rightarrow> uuid \<Rightarrow> string \<Rightarrow> rat option
     \<Rightarrow> rat option \<Rightarrow> trace \<Rightarrow> user_pool_response http_result \<times> trace" where
  "add_user_to_pool env rep rnd POOLS_SERVICE_URL uid loc coord_x coord_y tr =
     (case add_user_to_pool_service env rep rnd uid loc coord_x coord_y POOLS_SERVICE_URL 20 tr of
        (Inr result, tr') \<Rightarrow> (Returned result, tr')
      | (Inl e, tr') \<Rightarrow>
         (if is_RuntimeError e then HTTPException 502
          else if is_ValueError e then HTTPException 400
          else HTTPException 500, tr'))"

definition generate_matches_for_user ::
  "upstream \<Rightarrow> (json \<Rightarrow> string) \<Rightarrow> (nat \<Rightarrow> nat) \<Rightarrow> (nat \<Rightarrow> nat)
     \<Rightarrow> ((string \<times> json) list \<Rightarrow> exn + 'm) \<Rightarrow> string \<Rightarrow> string \<Rightarrow> uuid \<Rightarrow> trace
     \<Rightarrow> 'm generate_matches_response http_result \<times> trace" where
  "generate_matches_for_user env rep rnd order MatchGet MATCHES_SERVICE_URL POOLS_SERVICE_URL
       uid tr =
     (case generate_matches_for_user_service env rep rnd order MatchGet uid MATCHES_SERVICE_URL
             POOLS_SERVICE_URL 10 tr of
        (Inr result, tr') \<Rightarrow> (Returned result, tr')
      | (Inl e, tr') \<Rightarrow>
         (if is_ValueError e then HTTPException 404
          else if is_RuntimeError e then HTTPException 502
          else HTTPException 500, tr'))"

record user_matches_read =
  umr_user_id :: uuid
  matches_count :: nat
  umr_matches :: json

text \<open>\<^verbatim>\<open>len(matches)\<close> is inside the route's \<^verbatim>\<open>try\<close>: a body without a length ends in the
  last clause.\<close>

definition get_user_matches ::
  "upstream \<Rightarrow> string \<Rightarrow> uuid \<Rightarrow> trace \<Rightarrow> user_matches_read http_result \<times> trace" where
  "get_user_matches env MATCHES_SERVICE_URL uid tr =
     (case get_user_matches_from_service env uid MATCHES_SERVICE_URL tr of
        (Inr ms, tr') \<Rightarrow>
         (case py_len ms of
            Inr n \<Rightarrow> Returned \<lparr>umr_user_id = uid, matches_count = n, umr_matches = ms\<rparr>
          | Inl e \<Rightarrow> (if is_RuntimeError e then HTTPException 502 else HTTPException 500), tr')
      | (Inl e, tr') \<Rightarrow>
         (if is_RuntimeError e then HTTPException 502 else HTTPException 500, tr'))"

record user_decisions_read =
  udr_user_id :: uuid
  decisions_count :: nat
  decisions :: "json list"

definition get_user_decisions ::
  "upstream \<Rightarrow> (json \<Rightarrow> string) \<Rightarrow> string \<Rightarrow> uuid \<Rightarrow> trace
     \<Rightarrow> user_decisions_read http_result \<times> trace" where
  "get_user_decisions env rep MATCHES_SERVICE_URL uid tr =
     (case get_user_decisions_from_service env rep uid MATCHES_SERVICE_URL tr of
        (Inr ds, tr') \<Rightarrow>
         (Returned \<lparr>udr_user_id = uid, decisions_count = length ds, decisions = ds\<rparr>, tr')
      | (Inl e, tr') \<Rightarrow>
         (if is_RuntimeError e then HTTPException 502 else HTTPException 500, tr'))"

definition remove_user_from_pool ::
  "upstream \<Rightarrow> string \<Rightarrow> uuid \<Rightarrow> trace \<Rightarrow> json http_result \<times> trace" where
  "remove_user_from_pool env POOLS_SERVICE_URL uid tr =
     (case delete_user_from_pool_service env uid POOLS_SERVICE_URL tr of
        (Inr result, tr') \<Rightarrow> (Returned result, tr')
      | (Inl e, tr') \<Rightarrow>
         (if is_ValueError e then HTTPException 404
          else if is_RuntimeError e then HTTPException 502
          else HTTPException 500, tr'))"

definition submit_user_match_decision ::
  "upstream \<Rightarrow> string \<Rightarrow> uuid \<Rightarrow> uuid \<Rightarrow> string \<Rightarrow> trace \<Rightarrow> json http_result \<times> trace" where
  "submit_user_match_decision env MATCHES_SERVICE_URL uid mid decision tr =
     (case submit_decision_for_user_match env uid mid decision MATCHES_SERVICE_URL tr of
        (Inr result, tr') \<Rightarrow> (Returned result, tr')
      | (Inl e, tr') \<Rightarrow>
         (if is_PermissionError e then HTTPException 403
          else if is_ValueError e then HTTPException 400
          else if is_RuntimeError e then HTTPException 502
          else HTTPException 500, tr'))"


section \<open>Notions for the statements about match generation\<close>

text \<open>\<^verbatim>\<open>member.get("user_id")\<close> of a member that is a dict: the peer the helper \<^verbatim>\<open>create_match\<close>
  names in its call.\<close>

definition peer_id :: "json \<Rightarrow> json" where
  "peer_id member = (case py_get member ''user_id'' JNull of Inl e \<Rightarrow> JNull | Inr peer \<Rightarrow> peer)"

text \<open>A future that holds a result, not an exception.\<close>

fun is_result :: "exn + 'a \<Rightarrow> bool" where
  "is_result (Inr r) = True"
| "is_result (Inl e) = False"

text \<open>The truthy bodies among the results of a list of futures, in the order of the list:
  what the loop over \<^verbatim>\<open>as_completed\<close> appends when no future raises.\<close>

fun created_of :: "(exn + json option) list \<Rightarrow> json list" where
  "created_of [] = []"
| "created_of (Inr (Some m) # rs) = (if truthy m then m # created_of rs else created_of rs)"
| "created_of (r # rs) = created_of rs"

section \<open>Notions for the statements about decision listing\<close>

text \<open>The \<^verbatim>\<open>match_id\<close> the loop reads in a listed match (\<^verbatim>\<open>match.get("match_id")\<close>), the decision
  calls of a listing (one for each match whose id is truthy, in the order of the listing), what
  a decision call contributes (its body when it answers 200 with JSON, nothing otherwise), and
  the contributions of a sequence of calls issued one after the other.\<close>

definition match_id_of :: "json \<Rightarrow> json" where
  "match_id_of m = (case py_get m ''match_id'' JNull of Inl e \<Rightarrow> JNull | Inr mid \<Rightarrow> mid)"

definition decision_calls :: "(json \<Rightarrow> string) \<Rightarrow> string \<Rightarrow> uuid \<Rightarrow> json list \<Rightarrow> request list" where
  "decision_calls rep base_url uid ms =
     map (\<lambda>m. decision_request rep base_url (match_id_of m) uid)
         (filter (\<lambda>m. truthy (match_id_of m)) ms)"

definition kept_decision :: "outcome \<Rightarrow> json option" where
  "kept_decision out =
     (case out of NoResponse \<Rightarrow> None | Response st b \<Rightarrow> (if st = 200 then b else None))"

definition decisions_kept :: "upstream \<Rightarrow> trace \<Rightarrow> request list \<Rightarrow> json list" where
  "decisions_kept env tr calls =
     List.map_filter (\<lambda>i. kept_decision (env (tr @ take i calls) (calls ! i)))
       [0..<length calls]"

section \<open>Concrete upstreams\<close>

text \<open>Small upstreams on which the functions are run: \<open>always out\<close> gives every call the
  same outcome.\<close>

definition always :: "outcome \<Rightarrow> upstream" where
  "always out = (\<lambda>tr request. out)"

text \<open>
  The scenario of a pool \<^verbatim>\<open>p1\<close> at \<^verbatim>\<open>NYC\<close> with the members \<^verbatim>\<open>u1\<close>, \<^verbatim>\<open>u2\<close>, \<^verbatim>\<open>u3\<close>. The pools
  service is at \<^verbatim>\<open>P\<close>, the matches service at \<^verbatim>\<open>M\<close>; the matches service creates the match of
  \<^verbatim>\<open>u1\<close> with \<^verbatim>\<open>u2\<close> and refuses any other pair with a 409. It lists two matches of \<^verbatim>\<open>u1\<close>: \<^verbatim>\<open>u1\<close>
  has decided on \<^verbatim>\<open>m1\<close>, and the decision asked for \<^verbatim>\<open>m2\<close> is answered with a 404.
\<close>

definition nyc_upstream :: upstream where
  "nyc_upstream tr request =
     (let m = req_method request; u = req_url request in
      if m = GET \<and> u = ''P/pools/members?user_id=u1'' then
        Response 200 (Some (JList [JObj [(''pool_id'', JStr ''p1''), (''user_id'', JStr ''u1''),
                                         (''joined_at'', JStr ''t0'')]]))
      else if m = GET \<and> u = ''P/pools/p1'' then
        Response 200 (Some (JObj [(''id'', JStr ''p1''), (''name'', JStr ''Pool for NYC''),
                                  (''location'', JStr ''NYC''), (''member_count'', JInt 3)]))
      else if m = GET \<and> u = ''P/pools/p1/members'' then
        Response 200 (Some (JList [JObj [(''user_id'', JStr ''u1'')],
                                   JObj [(''user_id'', JStr ''u2'')],
                                   JObj [(''user_id'', JStr ''u3'')]]))
      else if m = POST \<and> u = ''M/matches/'' then
        (if req_json request = Some (JObj [(''pool_id'', JStr ''p1''), (''user1_id'', JStr ''u1''),
                                           (''user2_id'', JStr ''u2'')])
         then Response 201 (Some (JObj [(''match_id'', JStr ''m12''), (''user1_id'', JStr ''u1''),
                                        (''user2_id'', JStr ''u2'')]))
         else Response 409 None)
      else if m = GET \<and> u = ''M/matches/?user_id=u1'' then
        Response 200 (Some (JList [JObj [(''match_id'', JStr ''m1'')],
                                   JObj [(''match_id'', JStr ''m2'')]]))
      else if m = GET \<and> u = ''M/matches/m1/decisions/u1'' then
        Response 200 (Some (JObj [(''match_id'', JStr ''m1''), (''user_id'', JStr ''u1''),
                                  (''decision'', JStr ''accept'')]))
      else if m = GET \<and> u = ''M/matches/m2/decisions/u1'' then Response 404 None
      else NoResponse)"

text \<open>A generator whose raw values are all 0, a printer for the values the scenarios print,
  and a validator that asks for a \<^verbatim>\<open>match_id\<close>.\<close>

definition first_draws :: "nat \<Rightarrow> nat" where
  "first_draws = (\<lambda>i. 0)"

definition py_print :: "json \<Rightarrow> string" where
  "py_print v = (case v of JNull \<Rightarrow> ''None'' | JInt i \<Rightarrow> (if i = 1 then ''1'' else ''0'') | _ \<Rightarrow> [])"

definition accept_with_id :: "(string \<times> json) list \<Rightarrow> exn + (string \<times> json) list" where
  "accept_with_id kvs = (if map_of kvs ''match_id'' = None then Inl ValidationError else Inr kvs)"

text \<open>An upstream whose pool record carries another id than the one it was asked for.\<close>

definition renamed_pool_upstream :: upstream where
  "renamed_pool_upstream tr request =
     (let u = req_url request in
      if u = ''P/pools/members?user_id=u1'' then
        Response 200 (Some (JList [JObj [(''pool_id'', JStr ''p1''), (''user_id'', JStr ''u1''),
                                         (''joined_at'', JStr ''t0'')]]))
      else if u = ''P/pools/p1'' then
        Response 200 (Some (JObj [(''id'', JStr ''p2''), (''name'', JStr ''Pool for NYC'')]))
      else NoResponse)"


text \<open>A location with three pools: \<^verbatim>\<open>p1\<close> is full at 20, \<^verbatim>\<open>p2\<close> has 3 members, \<^verbatim>\<open>p3\<close> is listed
  without a \<^verbatim>\<open>member_count\<close>. A pool created here would be \<^verbatim>\<open>p4\<close>.\<close>

definition three_pools :: "json list" where
  "three_pools = [JObj [(''id'', JStr ''p1''), (''member_count'', JInt 20)],
                  JObj [(''id'', JStr ''p2''), (''member_count'', JInt 3)],
                  JObj [(''id'', JStr ''p3'')]]"


text \<open>The pool \<^verbatim>\<open>p1\<close> with \<^verbatim>\<open>u1\<close> as its only member.\<close>

definition lonely_upstream :: upstream where
  "lonely_upstream tr request =
     (let m = req_method request; u = req_url request in
      if m = GET \<and> u = ''P/pools/members?user_id=u1'' then
        Response 200 (Some (JList [JObj [(''pool_id'', JStr ''p1''), (''user_id'', JStr ''u1''),
                                         (''joined_at'', JStr ''t0'')]]))
      else if m = GET \<and> u = ''P/pools/p1'' then
        Response 200 (Some (JObj [(''id'', JStr ''p1''), (''name'', JStr ''Pool for NYC''),
                                  (''location'', JStr ''NYC''), (''member_count'', JInt 1)]))
      else if m = GET \<and> u = ''P/pools/p1/members'' then
        Response 200 (Some (JList [JObj [(''user_id'', JStr ''u1'')]]))
      else NoResponse)"

text \<open>An upstream that knows the membership of \<^verbatim>\<open>u1\<close> and lets every other call time out.\<close>

definition silent_pool_upstream :: upstream where
  "silent_pool_upstream tr request =
     (if req_url request = ''P/pools/members?user_id=u1'' then
        Response 200 (Some (JList [JObj [(''pool_id'', JStr ''p1''), (''user_id'', JStr ''u1''),
                                         (''joined_at'', JStr ''t0'')]]))
      else NoResponse)"

text \<open>A matches service that lists five matches of \<^verbatim>\<open>u1\<close>: the decision asked for \<^verbatim>\<open>m1\<close> is
  answered with a 404, \<^verbatim>\<open>u1\<close> has decided on \<^verbatim>\<open>m2\<close>, the third match has no \<^verbatim>\<open>match_id\<close>, the call
  for \<^verbatim>\<open>m3\<close> gets no response, and \<^verbatim>\<open>u1\<close> has decided on \<^verbatim>\<open>m4\<close>.\<close>

definition listed_matches :: "json list" where
  "listed_matches = [JObj [(''match_id'', JStr ''m1'')], JObj [(''match_id'', JStr ''m2'')],
                     JObj [(''pool_id'', JStr ''p1'')], JObj [(''match_id'', JStr ''m3'')],
                     JObj [(''match_id'', JStr ''m4'')]]"

definition decisions_upstream :: upstream where
  "decisions_upstream tr request =
     (let m = req_method request; u = req_url request in
      if m = GET \<and> u = ''M/matches/?user_id=u1'' then Response 200 (Some (JList listed_matches))
      else if m = GET \<and> u = ''M/matches/m1/decisions/u1'' then Response 404 None
      else if m = GET \<and> u = ''M/matches/m2/decisions/u1'' then
        Response 200 (Some (JObj [(''match_id'', JStr ''m2''), (''user_id'', JStr ''u1''),
                                  (''decision'', JStr ''accept'')]))
      else if m = GET \<and> u = ''M/matches/m4/decisions/u1'' then
        Response 200 (Some (JObj [(''match_id'', JStr ''m4''), (''user_id'', JStr ''u1''),
                                  (''decision'', JStr ''reject'')]))
      else NoResponse)"

section \<open>What the handlers see\<close>

text \<open>An exception of \<open>checked_json\<close> is a \<^verbatim>\<open>RequestException\<close> whose response, when it has
  one, is falsy: the tests on \<^verbatim>\<open>e.response\<close> in the handlers never pass for it.\<close>

lemma checked_json_Inl:
  "checked_json out = Inl e \<Longrightarrow> is_RequestException e \<and> \<not> response_truthy e"
  by (cases out) (auto simp: response_truthy_def split: if_splits option.splits)

section \<open>Upstream status codes and what the routes answer\<close>

text \<open>
  C6. The claim: a 404 of the match listing gives \<^verbatim>\<open>ListUserMatches\<close> and
  \<^verbatim>\<open>ListUserDecisions\<close> an empty sequence as a successful result. The source tests
  \<^verbatim>\<open>e.response and e.response.status_code == 404\<close>, and a response with status 404 is falsy, so
  the \<^verbatim>\<open>return []\<close> is not reached: whenever the upstream answers the listing with 404, both
  orchestration functions raise \<^verbatim>\<open>RuntimeError\<close> and both routes answer 502.
\<close>

theorem list_404_is_502:
  assumes "env tr (list_matches_request url uid) = Response 404 b"
  shows "get_user_matches_from_service env uid url tr =
           (Inl (RuntimeError ''Service communication error''), tr @ [list_matches_request url uid])
       \<and> get_user_matches env url uid tr = (HTTPException 502, tr @ [list_matches_request url uid])
       \<and> get_user_decisions_from_service env rep uid url tr =
           (Inl (RuntimeError ''Service communication error''), tr @ [list_matches_request url uid])
       \<and> get_user_decisions env rep url uid tr = (HTTPException 502, tr @ [list_matches_request url uid])"
  using assms
  by (simp add: get_user_matches_from_service_def get_user_matches_def
        get_user_decisions_from_service_def get_user_decisions_try_def get_user_decisions_def
        Let_def is_error_status_def response_has_status_def response_truthy_def)

theorem list_404_is_502_witness:
  "always (Response 404 None) [] (list_matches_request ''M'' ''u1'') = Response 404 None
   \<and> fst (get_user_matches (always (Response 404 None)) ''M'' ''u1'' []) = HTTPException 502
   \<and> fst (get_user_decisions (always (Response 404 None)) (\<lambda>v. ''None'') ''M'' ''u1'' [])
       = HTTPException 502"
  using list_404_is_502 [of "always (Response 404 None)" "[]" "''M''" "''u1''" None "\<lambda>v. ''None''"]
  by (simp add: always_def)

text \<open>
  C7. The claim: a 404 of the membership delete is surfaced as \<^verbatim>\<open>NotMember\<close> (HTTP 404). The
  handler has the same test on \<^verbatim>\<open>e.response\<close>: whenever the upstream answers the delete with
  404, \<^verbatim>\<open>delete_user_from_pool_service\<close> raises \<^verbatim>\<open>RuntimeError\<close>, not \<^verbatim>\<open>ValueError\<close>, and the
  route answers 502.
\<close>

theorem delete_404_is_502:
  assumes "env tr (delete_member_request url uid) = Response 404 b"
  shows "delete_user_from_pool_service env uid url tr =
           (Inl (RuntimeError ''Service communication error''), tr @ [delete_member_request url uid])
       \<and> remove_user_from_pool env url uid tr = (HTTPException 502, tr @ [delete_member_request url uid])"
  using assms
  by (simp add: delete_user_from_pool_service_def remove_user_from_pool_def not_member_handler_def
        Let_def is_error_status_def response_has_status_def response_truthy_def)

theorem delete_404_is_502_witness:
  "always (Response 404 None) [] (delete_member_request ''P'' ''u1'') = Response 404 None
   \<and> fst (remove_user_from_pool (always (Response 404 None)) ''P'' ''u1'' []) = HTTPException 502"
  using delete_404_is_502 [of "always (Response 404 None)" "[]" "''P''" "''u1''" None]
  by (simp add: always_def)

text \<open>
  C5. The claim: for \<^verbatim>\<open>SubmitDecision\<close> an upstream 400 gives \<^verbatim>\<open>InvalidDecision\<close> (400), a 403
  gives \<^verbatim>\<open>NotParticipant\<close> (403) and a 404 gives \<^verbatim>\<open>MatchNotFound\<close> (404). The three branches
  sit under \<^verbatim>\<open>if hasattr(e, "response") and e.response:\<close>, which an error response never
  passes: whenever the upstream answers the decision call with a status from 400 to 599,
  \<^verbatim>\<open>submit_decision_for_user_match\<close> raises \<^verbatim>\<open>RuntimeError\<close> and the route answers 502.
\<close>

theorem submit_error_is_502:
  assumes "env tr (submit_decision_request url uid mid decision) = Response st b"
      and "is_error_status st"
  shows "submit_decision_for_user_match env uid mid decision url tr =
           (Inl (RuntimeError ''Service communication error''),
            tr @ [submit_decision_request url uid mid decision])
       \<and> submit_user_match_decision env url uid mid decision tr =
           (HTTPException 502, tr @ [submit_decision_request url uid mid decision])"
  using assms
  by (simp add: submit_decision_for_user_match_def submit_user_match_decision_def
        submit_decision_handler_def Let_def response_truthy_def)

theorem submit_error_is_502_witness:
  "always (Response 403 None) [] (submit_decision_request ''M'' ''u4'' ''m1'' ''accept'')
     = Response 403 None
   \<and> is_error_status 403
   \<and> fst (submit_user_match_decision (always (Response 403 None)) ''M'' ''u4'' ''m1'' ''accept'' [])
       = HTTPException 502"
  using submit_error_is_502
    [of "always (Response 403 None)" "[]" "''M''" "''u4''" "''m1''" "''accept''" 403 None]
  by (simp add: always_def is_error_status_def)

section \<open>The calls a request issues\<close>

lemma create_match_trace: "\<exists>ext. snd (create_match env rep murl pid uid m tr) = tr @ ext"
  by (auto simp: create_match_def Let_def split: sum.splits)

lemma submit_all_trace: "\<exists>ext. snd (submit_all env rep murl pid uid ms tr) = tr @ ext"
proof (induction ms arbitrary: tr)
  case Nil
  show ?case by simp
next
  case (Cons m ms)
  obtain r tr1 where c: "create_match env rep murl pid uid m tr = (r, tr1)"
    by (cases "create_match env rep murl pid uid m tr")
  obtain ext1 where e1: "tr1 = tr @ ext1"
    using create_match_trace [of env rep murl pid uid m tr] c by auto
  obtain ext2 where e2: "snd (submit_all env rep murl pid uid ms tr1) = tr1 @ ext2"
    using Cons.IH by blast
  show ?case using c e1 e2 by (auto split: prod.splits)
qed

lemma create_matches_trace:
  "\<exists>ext. snd (create_matches env rep rnd order MatchGet uid murl mm pid others tr) = tr @ ext"
proof (cases "random_sample rnd others (min mm (int (length others)))")
  case (Inl e)
  then show ?thesis by (simp add: create_matches_def)
next
  case (Inr sel)
  obtain ext where "snd (submit_all env rep murl pid uid sel tr) = tr @ ext"
    using submit_all_trace by blast
  then show ?thesis using Inr
    by (auto simp: create_matches_def split: prod.splits sum.splits)
qed

text \<open>Every call the orchestration functions build carries \<^verbatim>\<open>timeout=REQUEST_TIMEOUT\<close>, but the
  listing of step 2 of the match generation.\<close>

lemma timed_requests:
  "req_timeout (members_lookup_request purl uid) = Some REQUEST_TIMEOUT"
  "req_timeout (pool_details_request rep purl pid) = Some REQUEST_TIMEOUT"
  "req_timeout (list_pools_request purl loc) = Some REQUEST_TIMEOUT"
  "req_timeout (create_pool_request purl loc) = Some REQUEST_TIMEOUT"
  "req_timeout (add_member_request rep purl pid uid cx cy) = Some REQUEST_TIMEOUT"
  "req_timeout (list_matches_request murl uid) = Some REQUEST_TIMEOUT"
  "req_timeout (create_match_request rep murl pid uid peer) = Some REQUEST_TIMEOUT"
  "req_timeout (pool_members_request_timed rep purl pid) = Some REQUEST_TIMEOUT"
  "req_timeout (decision_request rep murl mid uid) = Some REQUEST_TIMEOUT"
  "req_timeout (submit_decision_request murl uid match_id decision) = Some REQUEST_TIMEOUT"
  "req_timeout (delete_member_request purl uid) = Some REQUEST_TIMEOUT"
  "req_timeout (update_member_request rep purl pid uid cx cy) = Some REQUEST_TIMEOUT"
  by (simp_all add: members_lookup_request_def pool_details_request_def list_pools_request_def
        create_pool_request_def add_member_request_def list_matches_request_def
        create_match_request_def pool_members_request_timed_def decision_request_def
        submit_decision_request_def delete_member_request_def update_member_request_def)

lemma nyc_pool:
  "get_user_pool_from_service nyc_upstream py_print ''u1'' ''P'' [] =
     (Inr \<lparr>pool_id = JStr ''p1'', pool_name = JStr ''Pool for NYC'', location = JStr ''NYC'',
           member_count = JInt 3, joined_at = JStr ''t0'', user_id = JStr ''u1''\<rparr>,
      [members_lookup_request ''P'' ''u1'', pool_details_request py_print ''P'' (JStr ''p1'')])"
  by code_simp

text \<open>
  C8. The claim: every outbound call of the layer carries the bounded timeout. Step 2 of
  \<^verbatim>\<open>generate_matches_for_user_service\<close> calls \<^verbatim>\<open>requests.get\<close> with the URL alone: whenever
  the pool of the user is resolved, the request issues the listing of the pool's members
  right after the two calls of the resolution, and that call has no timeout.
\<close>

theorem members_call_has_no_timeout:
  assumes "get_user_pool_from_service env rep uid purl tr = (Inr d, tr0)"
      and "truthy (pool_id d)"
  shows "req_timeout (pool_members_request rep purl (pool_id d)) = None
       \<and> (\<exists>ext. snd (generate_matches_for_user_service env rep rnd order MatchGet uid murl purl mm tr)
                  = tr0 @ pool_members_request rep purl (pool_id d) # ext)"
proof -
  let ?req = "pool_members_request rep purl (pool_id d)"
  have t: "req_timeout ?req = None" by (simp add: pool_members_request_def)
  have f: "\<exists>ext. snd (find_other_members env rep uid purl tr) = tr0 @ ?req # ext"
    using assms by (auto simp: find_other_members_def Let_def split: sum.splits)
  have g: "\<exists>ext. snd (generate_matches_try env rep rnd order MatchGet uid murl purl mm tr)
                  = tr0 @ ?req # ext"
  proof (cases "find_other_members env rep uid purl tr")
    case (Pair res tr1)
    obtain ext where e: "tr1 = tr0 @ ?req # ext" using f Pair by auto
    show ?thesis
    proof (cases res)
      case (Inl e')
      then show ?thesis using Pair e by (simp add: generate_matches_try_def)
    next
      case (Inr po)
      obtain pid others where po: "po = (pid, others)" by (cases po)
      obtain ext2 where
        "snd (create_matches env rep rnd order MatchGet uid murl mm pid others tr1) = tr1 @ ext2"
        using create_matches_trace by blast
      then show ?thesis using Pair Inr po e by (simp add: generate_matches_try_def)
    qed
  qed
  have "snd (generate_matches_for_user_service env rep rnd order MatchGet uid murl purl mm tr)
        = snd (generate_matches_try env rep rnd order MatchGet uid murl purl mm tr)"
    by (simp add: generate_matches_for_user_service_def except_with_def
          split: prod.splits sum.splits)
  then show ?thesis using t g by simp
qed

theorem members_call_has_no_timeout_witness:
  "get_user_pool_from_service nyc_upstream py_print ''u1'' ''P'' [] =
     (Inr \<lparr>pool_id = JStr ''p1'', pool_name = JStr ''Pool for NYC'', location = JStr ''NYC'',
           member_count = JInt 3, joined_at = JStr ''t0'', user_id = JStr ''u1''\<rparr>,
      [members_lookup_request ''P'' ''u1'', pool_details_request py_print ''P'' (JStr ''p1'')])
   \<and> truthy (JStr ''p1'')
   \<and> req_timeout (pool_members_request py_print ''P'' (JStr ''p1'')) = None
   \<and> (\<exists>ext. snd (generate_matches_for_user_service nyc_upstream py_print first_draws first_draws
                    accept_with_id ''u1'' ''M'' ''P'' 10 [])
              = [members_lookup_request ''P'' ''u1'',
                 pool_details_request py_print ''P'' (JStr ''p1'')]
                @ pool_members_request py_print ''P'' (JStr ''p1'') # ext)"
  using nyc_pool
    members_call_has_no_timeout [OF nyc_pool, of first_draws first_draws accept_with_id "''M''" 10]
  by simp

section \<open>\<^verbatim>\<open>GetUserPool\<close>\<close>

text \<open>
  C4, as stated: when the membership lookup is not empty, the operation returns a merged
  record with the \<^verbatim>\<open>pool_id\<close> of the user's membership record. The source returns
  \<^verbatim>\<open>user_pool["id"]\<close>, the id field of the pool record it fetched: with a membership in \<^verbatim>\<open>p1\<close>
  and a pool record that says \<^verbatim>\<open>p2\<close>, the route returns \<^verbatim>\<open>p2\<close>. And a record is returned only
  when the fetch succeeds: with the same membership and a fetch that times out, the route
  answers 502.
\<close>

theorem get_user_pool_id_counterexample:
  "checked_json (renamed_pool_upstream [] (members_lookup_request ''P'' ''u1'')) =
     Inr (JList [JObj [(''pool_id'', JStr ''p1''), (''user_id'', JStr ''u1''),
                       (''joined_at'', JStr ''t0'')]])
   \<and> fst (get_user_pool renamed_pool_upstream py_print ''P'' ''u1'' []) =
       Returned \<lparr>pool_id = JStr ''p2'', pool_name = JStr ''Pool for NYC'', location = JNull,
                 member_count = JNull, joined_at = JStr ''t0'', user_id = JStr ''u1''\<rparr>
   \<and> JStr ''p2'' \<noteq> JStr ''p1''
   \<and> checked_json (silent_pool_upstream [] (members_lookup_request ''P'' ''u1'')) =
       Inr (JList [JObj [(''pool_id'', JStr ''p1''), (''user_id'', JStr ''u1''),
                         (''joined_at'', JStr ''t0'')]])
   \<and> get_user_pool silent_pool_upstream py_print ''P'' ''u1'' [] =
       (HTTPException 502,
        [members_lookup_request ''P'' ''u1'', pool_details_request py_print ''P'' (JStr ''p1'')])"
  by code_simp

text \<open>
  C4, amended. If the membership lookup returns an empty list (any falsy body), the
  function raises \<^verbatim>\<open>ValueError\<close> and the route answers 404. If it returns a list whose first
  record is an object, the pool fetched at the \<^verbatim>\<open>pool_id\<close> of that record is an object with
  \<^verbatim>\<open>id\<close> and \<^verbatim>\<open>name\<close>, and the membership record has \<^verbatim>\<open>joined_at\<close> and \<^verbatim>\<open>user_id\<close>, the route
  returns the merged record: \<^verbatim>\<open>pool_id\<close> is the id field of the fetched pool, \<^verbatim>\<open>pool_name\<close>,
  \<^verbatim>\<open>location\<close> and \<^verbatim>\<open>member_count\<close> come from the pool, \<^verbatim>\<open>joined_at\<close> and \<^verbatim>\<open>user_id\<close> from the
  membership; two calls were issued, the lookup and the fetch.
\<close>

theorem get_user_pool_merges:
  "(checked_json (env tr (members_lookup_request url uid)) = Inr members \<and> \<not> truthy members
      \<longrightarrow> get_user_pool_from_service env rep uid url tr =
            (Inl (ValueError ''User is not a member of any pool''),
             tr @ [members_lookup_request url uid])
        \<and> get_user_pool env rep url uid tr =
            (HTTPException 404, tr @ [members_lookup_request url uid]))
   \<and> (checked_json (env tr (members_lookup_request url uid)) = Inr (JList (JObj mkv # ms))
      \<and> py_get (JObj mkv) ''pool_id'' JNull = Inr mpid
      \<and> checked_json (env (tr @ [members_lookup_request url uid])
                        (pool_details_request rep url mpid)) = Inr (JObj pkv)
      \<and> map_of pkv ''id'' = Some pid \<and> map_of pkv ''name'' = Some pname
      \<and> map_of mkv ''joined_at'' = Some joined \<and> map_of mkv ''user_id'' = Some u
      \<longrightarrow> get_user_pool env rep url uid tr =
            (Returned \<lparr>pool_id = pid, pool_name = pname,
                       location = (case map_of pkv ''location'' of None \<Rightarrow> JNull | Some v \<Rightarrow> v),
                       member_count =
                         (case map_of pkv ''member_count'' of None \<Rightarrow> JNull | Some v \<Rightarrow> v),
                       joined_at = joined, user_id = u\<rparr>,
             tr @ [members_lookup_request url uid, pool_details_request rep url mpid]))"
  by (auto simp: get_user_pool_def get_user_pool_from_service_def get_user_pool_try_def Let_def
        merge_pool_member_def reraise_value_wrap_request_def except_with_def)

theorem get_user_pool_merges_witness:
  "checked_json (always (Response 200 (Some (JList []))) [] (members_lookup_request ''P'' ''u1''))
     = Inr (JList [])
   \<and> \<not> truthy (JList [])
   \<and> get_user_pool (always (Response 200 (Some (JList [])))) py_print ''P'' ''u1'' [] =
       (HTTPException 404, [members_lookup_request ''P'' ''u1''])
   \<and> checked_json (nyc_upstream [] (members_lookup_request ''P'' ''u1'')) =
       Inr (JList [JObj [(''pool_id'', JStr ''p1''), (''user_id'', JStr ''u1''),
                         (''joined_at'', JStr ''t0'')]])
   \<and> checked_json (nyc_upstream [members_lookup_request ''P'' ''u1'']
                     (pool_details_request py_print ''P'' (JStr ''p1''))) =
       Inr (JObj [(''id'', JStr ''p1''), (''name'', JStr ''Pool for NYC''),
                  (''location'', JStr ''NYC''), (''member_count'', JInt 3)])
   \<and> get_user_pool nyc_upstream py_print ''P'' ''u1'' [] =
       (Returned \<lparr>pool_id = JStr ''p1'', pool_name = JStr ''Pool for NYC'',
                  location = JStr ''NYC'', member_count = JInt 3, joined_at = JStr ''t0'',
                  user_id = JStr ''u1''\<rparr>,
        [members_lookup_request ''P'' ''u1'', pool_details_request py_print ''P'' (JStr ''p1'')])"
  using
    get_user_pool_merges [of "always (Response 200 (Some (JList [])))" "[]" "''P''" "''u1''"
      "JList []" py_print]
    get_user_pool_merges [of nyc_upstream "[]" "''P''" "''u1''" _ py_print
      "[(''pool_id'', JStr ''p1''), (''user_id'', JStr ''u1''), (''joined_at'', JStr ''t0'')]"
      "[]" "JStr ''p1''"
      "[(''id'', JStr ''p1''), (''name'', JStr ''Pool for NYC''), (''location'', JStr ''NYC''),
        (''member_count'', JInt 3)]"
      "JStr ''p1''" "JStr ''Pool for NYC''" "JStr ''t0''" "JStr ''u1''"]
  by (simp add: always_def nyc_upstream_def members_lookup_request_def pool_details_request_def
        is_error_status_def Let_def)

section \<open>\<^verbatim>\<open>AddUserToPool\<close>\<close>

lemma filter_full_pools_filter:
  "filter_full_pools mps ps = Inr pools \<Longrightarrow>
     pools = filter (\<lambda>p. pool_has_room mps p = Inr True) ps"
  by (induction ps arbitrary: pools) (auto split: sum.splits if_splits)

text \<open>
  C10. In the capacity filter a listed pool object without \<^verbatim>\<open>member_count\<close> is treated as a pool
  with \<^verbatim>\<open>member_count\<close> 0: for every \<^verbatim>\<open>max_pool_size\<close> the filter gives it the verdict of the same
  object with \<^verbatim>\<open>member_count\<close> 0, which is \<^verbatim>\<open>0 < max_pool_size\<close>. So with the 20 that is the default
  and that the route passes, and with any positive \<^verbatim>\<open>max_pool_size\<close>, the pool has room and
  stays among the eligible pools, whatever else the object says and however many members the
  pool has.
\<close>

theorem missing_member_count_counts_as_zero:
  "map_of kvs ''member_count'' = None \<longrightarrow>
     pool_has_room mps (JObj kvs) = pool_has_room mps (JObj ((''member_count'', JInt 0) # kvs))
   \<and> pool_has_room mps (JObj kvs) = Inr (0 < mps)
   \<and> pool_has_room 20 (JObj kvs) = Inr True
   \<and> (filter_full_pools 20 ps = Inr pools \<and> JObj kvs \<in> set ps \<longrightarrow> JObj kvs \<in> set pools)
   \<and> (0 < mps \<and> filter_full_pools mps ps = Inr pools \<and> JObj kvs \<in> set ps
        \<longrightarrow> JObj kvs \<in> set pools)"
  using filter_full_pools_filter [of mps ps pools] filter_full_pools_filter [of 20 ps pools]
  by (auto simp: pool_has_room_def)

theorem missing_member_count_counts_as_zero_witness:
  "map_of [(''id'', JStr ''p3'')] ''member_count'' = None
   \<and> pool_has_room 20 (JObj [(''id'', JStr ''p3'')]) = Inr True
   \<and> (0::int) < 20
   \<and> filter_full_pools 20 three_pools =
       Inr [JObj [(''id'', JStr ''p2''), (''member_count'', JInt 3)], JObj [(''id'', JStr ''p3'')]]
   \<and> JObj [(''id'', JStr ''p3'')] \<in> set three_pools
   \<and> JObj [(''id'', JStr ''p3'')]
       \<in> set [JObj [(''id'', JStr ''p2''), (''member_count'', JInt 3)], JObj [(''id'', JStr ''p3'')]]"
  using missing_member_count_counts_as_zero
    [of "[(''id'', JStr ''p3'')]" 20 three_pools
        "[JObj [(''id'', JStr ''p2''), (''member_count'', JInt 3)], JObj [(''id'', JStr ''p3'')]]"]
  by (simp add: three_pools_def pool_has_room_def)






section \<open>\<^verbatim>\<open>GenerateMatches\<close>\<close>

subsection \<open>Sampling and completion order\<close>

lemma mset_remove_nth:
  "j < length xs \<Longrightarrow> add_mset (xs ! j) (mset (remove_nth j xs)) = mset xs"
proof -
  assume j: "j < length xs"
  have "xs = take j xs @ xs ! j # drop (Suc j) xs"
    using j by (rule id_take_nth_drop)
  then have "mset xs = mset (take j xs @ xs ! j # drop (Suc j) xs)" by simp
  then show ?thesis by (simp add: remove_nth_def)
qed

lemma length_remove_nth: "j < length xs \<Longrightarrow> length (remove_nth j xs) = length xs - 1"
  by (simp add: remove_nth_def)

lemma length_draw_distinct: "length (draw_distinct rnd xs k) = min k (length xs)"
proof (induction k arbitrary: rnd xs)
  case 0
  show ?case by simp
next
  case (Suc k)
  show ?case
  proof (cases "xs = []")
    case True
    then show ?thesis by simp
  next
    case False
    then have j: "rnd 0 mod length xs < length xs" by simp
    obtain n where n: "length xs = Suc n" using False by (cases xs) auto
    have "length (remove_nth (rnd 0 mod length xs) xs) = n"
      using length_remove_nth [OF j] n by simp
    then have "length (draw_distinct (\<lambda>i. rnd (Suc i)) (remove_nth (rnd 0 mod length xs) xs) k)
               = min k n"
      using Suc.IH by simp
    then show ?thesis using False n by (simp add: Let_def)
  qed
qed

lemma mset_draw_distinct: "mset (draw_distinct rnd xs k) \<subseteq># mset xs"
proof (induction k arbitrary: rnd xs)
  case 0
  show ?case by simp
next
  case (Suc k)
  show ?case
  proof (cases "xs = []")
    case True
    then show ?thesis by simp
  next
    case False
    then have j: "rnd 0 mod length xs < length xs" by simp
    let ?j = "rnd 0 mod length xs"
    have "mset (draw_distinct (\<lambda>i. rnd (Suc i)) (remove_nth ?j xs) k) \<subseteq># mset (remove_nth ?j xs)"
      by (rule Suc.IH)
    then have "add_mset (xs ! ?j) (mset (draw_distinct (\<lambda>i. rnd (Suc i)) (remove_nth ?j xs) k))
               \<subseteq># add_mset (xs ! ?j) (mset (remove_nth ?j xs))"
      by simp
    then show ?thesis using False mset_remove_nth [OF j] by (simp add: Let_def)
  qed
qed

lemma remove_nth_map: "remove_nth j (map f ys) = map f (remove_nth j ys)"
  by (simp add: remove_nth_def take_map drop_map)

lemma draw_distinct_map:
  "draw_distinct rnd (map f ys) k = map f (draw_distinct rnd ys k)"
proof (induction k arbitrary: rnd ys)
  case 0
  show ?case by simp
next
  case (Suc k)
  show ?case
  proof (cases "ys = []")
    case True
    then show ?thesis by simp
  next
    case False
    then have "rnd 0 mod length ys < length ys" by simp
    then show ?thesis using False Suc.IH [of "\<lambda>i. rnd (Suc i)" "remove_nth (rnd 0 mod length ys) ys"]
      by (simp add: Let_def remove_nth_map)
  qed
qed

lemma distinct_remove_nth:
  "distinct ys \<Longrightarrow> j < length ys \<Longrightarrow>
     distinct (remove_nth j ys) \<and> set (remove_nth j ys) = set ys - {ys ! j}"
proof -
  assume d: "distinct ys" and j: "j < length ys"
  have ys: "ys = take j ys @ ys ! j # drop (Suc j) ys" using j by (rule id_take_nth_drop)
  have "distinct (take j ys @ ys ! j # drop (Suc j) ys)" using d ys by simp
  then have a: "distinct (take j ys @ drop (Suc j) ys)"
    and b: "ys ! j \<notin> set (take j ys @ drop (Suc j) ys)" by auto
  have "set ys = set (take j ys @ ys ! j # drop (Suc j) ys)" using ys by simp
  then have "set ys = insert (ys ! j) (set (take j ys @ drop (Suc j) ys))" by simp
  then show ?thesis using a b by (auto simp: remove_nth_def)
qed

lemma set_draw_distinct: "set (draw_distinct rnd xs k) \<subseteq> set xs"
  using mset_draw_distinct [of rnd xs k] by (metis set_mset_mono set_mset_mset)

lemma distinct_draw_distinct: "distinct xs \<Longrightarrow> distinct (draw_distinct rnd xs k)"
proof (induction k arbitrary: rnd xs)
  case 0
  show ?case by simp
next
  case (Suc k)
  show ?case
  proof (cases "xs = []")
    case True
    then show ?thesis by simp
  next
    case False
    let ?j = "rnd 0 mod length xs"
    have j: "?j < length xs" using False by simp
    have r: "distinct (remove_nth ?j xs)" "set (remove_nth ?j xs) = set xs - {xs ! ?j}"
      using distinct_remove_nth [OF Suc.prems j] by simp_all
    have "set (draw_distinct (\<lambda>i. rnd (Suc i)) (remove_nth ?j xs) k) \<subseteq> set xs - {xs ! ?j}"
      using set_draw_distinct [of "\<lambda>i. rnd (Suc i)" "remove_nth ?j xs" k] r(2) by simp
    then have "xs ! ?j \<notin> set (draw_distinct (\<lambda>i. rnd (Suc i)) (remove_nth ?j xs) k)" by auto
    then show ?thesis using False Suc.IH [OF r(1)] by (simp add: Let_def)
  qed
qed

lemma draw_distinct_positions:
  "\<exists>ps. distinct ps \<and> set ps \<subseteq> {..<length xs} \<and> length ps = min k (length xs)
        \<and> draw_distinct rnd xs k = map (\<lambda>i. xs ! i) ps"
proof -
  let ?ps = "draw_distinct rnd [0..<length xs] k"
  have sub: "mset ?ps \<subseteq># mset [0..<length xs]" by (rule mset_draw_distinct)
  have d: "distinct ?ps" by (rule distinct_draw_distinct) simp
  have s: "set ?ps \<subseteq> {..<length xs}"
    using set_mset_mono [OF sub] by auto
  have l: "length ?ps = min k (length xs)" by (simp add: length_draw_distinct)
  have "draw_distinct rnd (map (\<lambda>i. xs ! i) [0..<length xs]) k = map (\<lambda>i. xs ! i) ?ps"
    by (rule draw_distinct_map)
  then have "draw_distinct rnd xs k = map (\<lambda>i. xs ! i) ?ps" by (simp add: map_nth)
  then show ?thesis using d s l by blast
qed

lemma draw_distinct_reaches:
  "distinct ys \<Longrightarrow> distinct ps \<Longrightarrow> set ps \<subseteq> set ys \<Longrightarrow>
     \<exists>rnd. draw_distinct rnd ys (length ps) = ps"
proof (induction ps arbitrary: ys)
  case Nil
  show ?case by simp
next
  case (Cons p ps)
  then have "p \<in> set ys" by simp
  then obtain j where j: "j < length ys" and p: "ys ! j = p"
    by (auto simp: in_set_conv_nth)
  have ne: "ys \<noteq> []" using j by auto
  have r: "distinct (remove_nth j ys)" "set (remove_nth j ys) = set ys - {p}"
    using distinct_remove_nth [OF Cons.prems(1) j] p by simp_all
  have "set ps \<subseteq> set (remove_nth j ys)" using Cons.prems(2,3) r(2) by auto
  then obtain rnd' where rnd': "draw_distinct rnd' (remove_nth j ys) (length ps) = ps"
    using Cons.IH [OF r(1)] Cons.prems(2) by auto
  let ?rnd = "\<lambda>i. case i of 0 \<Rightarrow> j | Suc i' \<Rightarrow> rnd' i'"
  have "draw_distinct ?rnd ys (length (p # ps)) = p # ps"
    using ne j p rnd' by (simp add: Let_def)
  then show ?case by blast
qed

lemma draw_distinct_reaches_positions:
  assumes "distinct ps" and "set ps \<subseteq> {..<length xs}"
  shows "\<exists>rnd. draw_distinct rnd xs (length ps) = map (\<lambda>i. xs ! i) ps"
proof -
  have "set ps \<subseteq> set [0..<length xs]" using assms(2) by auto
  then obtain rnd where "draw_distinct rnd [0..<length xs] (length ps) = ps"
    using draw_distinct_reaches [OF distinct_upt assms(1)] by blast
  then have "draw_distinct rnd (map (\<lambda>i. xs ! i) [0..<length xs]) (length ps) = map (\<lambda>i. xs ! i) ps"
    by (simp add: draw_distinct_map)
  then show ?thesis by (auto simp: map_nth)
qed

lemma draw_vector_exists:
  "distinct ys \<Longrightarrow> distinct ps \<Longrightarrow> set ps \<subseteq> set ys \<Longrightarrow>
     \<exists>js. length js = length ps \<and> (\<forall>i < length ps. js ! i < length ys - i)
          \<and> draw_distinct (\<lambda>i. js ! i) ys (length ps) = ps"
proof (induction ps arbitrary: ys)
  case Nil
  show ?case by simp
next
  case (Cons p ps)
  then have "p \<in> set ys" by simp
  then obtain j where j: "j < length ys" and p: "ys ! j = p"
    by (auto simp: in_set_conv_nth)
  have ne: "ys \<noteq> []" using j by auto
  have r: "distinct (remove_nth j ys)" "set (remove_nth j ys) = set ys - {p}"
    using distinct_remove_nth [OF Cons.prems(1) j] p by simp_all
  have len: "length (remove_nth j ys) = length ys - 1" using j by (rule length_remove_nth)
  have "set ps \<subseteq> set (remove_nth j ys)" using Cons.prems(2,3) r(2) by auto
  then obtain js where js: "length js = length ps"
    "\<forall>i < length ps. js ! i < length (remove_nth j ys) - i"
    "draw_distinct (\<lambda>i. js ! i) (remove_nth j ys) (length ps) = ps"
    using Cons.IH [OF r(1)] Cons.prems(2) by auto
  have b: "\<forall>i < length (p # ps). (j # js) ! i < length ys - i"
  proof (intro allI impI)
    fix i assume i: "i < length (p # ps)"
    show "(j # js) ! i < length ys - i"
    proof (cases i)
      case 0
      then show ?thesis using j by simp
    next
      case (Suc k)
      then have "k < length ps" using i by simp
      then have "js ! k < length ys - 1 - k" using js(2) len by simp
      then show ?thesis using Suc by simp
    qed
  qed
  have "draw_distinct (\<lambda>i. (j # js) ! i) ys (length (p # ps)) = p # ps"
    using ne j p js(3) by (simp add: Let_def)
  then show ?case using js(1) b by (intro exI [of _ "j # js"]) simp
qed

lemma draw_vector_unique:
  "distinct ys \<Longrightarrow> length js = k \<Longrightarrow> length js' = k \<Longrightarrow>
   \<forall>i < k. js ! i < length ys - i \<Longrightarrow> \<forall>i < k. js' ! i < length ys - i \<Longrightarrow>
   draw_distinct (\<lambda>i. js ! i) ys k = draw_distinct (\<lambda>i. js' ! i) ys k \<Longrightarrow> js = js'"
proof (induction k arbitrary: ys js js')
  case 0
  then show ?case by simp
next
  case (Suc k)
  obtain j t where js: "js = j # t" using Suc.prems(2) by (cases js) auto
  obtain j' t' where js': "js' = j' # t'" using Suc.prems(3) by (cases js') auto
  have j: "j < length ys" using Suc.prems(4) js by auto
  have j': "j' < length ys" using Suc.prems(5) js' by auto
  have ne: "ys \<noteq> []" using j by auto
  have eq: "ys ! j # draw_distinct (\<lambda>i. t ! i) (remove_nth j ys) k
          = ys ! j' # draw_distinct (\<lambda>i. t' ! i) (remove_nth j' ys) k"
    using Suc.prems(6) ne j j' by (simp add: js js' Let_def)
  then have "ys ! j = ys ! j'" by simp
  then have jj: "j = j'" using Suc.prems(1) j j' by (simp add: nth_eq_iff_index_eq)
  have d: "distinct (remove_nth j ys)" using distinct_remove_nth [OF Suc.prems(1) j] by simp
  have len: "length (remove_nth j ys) = length ys - 1" using j by (rule length_remove_nth)
  have bt: "\<forall>i < k. t ! i < length (remove_nth j ys) - i"
  proof (intro allI impI)
    fix i assume "i < k"
    then have "js ! Suc i < length ys - Suc i" using Suc.prems(4) by simp
    then show "t ! i < length (remove_nth j ys) - i" using js len by simp
  qed
  have bt': "\<forall>i < k. t' ! i < length (remove_nth j ys) - i"
  proof (intro allI impI)
    fix i assume "i < k"
    then have "js' ! Suc i < length ys - Suc i" using Suc.prems(5) by simp
    then show "t' ! i < length (remove_nth j ys) - i" using js' len by simp
  qed
  have "t = t'"
    using Suc.IH [OF d _ _ bt bt'] eq jj Suc.prems(2,3) js js' by simp
  then show ?case using js js' jj by simp
qed

lemma draw_vector_unique_positions:
  assumes "distinct ps" and "set ps \<subseteq> {..<n}"
  shows "\<exists>!js. length js = length ps \<and> (\<forall>i < length ps. js ! i < n - i)
          \<and> draw_distinct (\<lambda>i. js ! i) [0..<n] (length ps) = ps"
proof -
  have sub: "set ps \<subseteq> set [0..<n]" using assms(2) by auto
  obtain js where js: "length js = length ps" "\<forall>i < length ps. js ! i < length [0..<n] - i"
    "draw_distinct (\<lambda>i. js ! i) [0..<n] (length ps) = ps"
    using draw_vector_exists [OF distinct_upt assms(1) sub] by blast
  show ?thesis
  proof (rule ex1I [of _ js])
    show "length js = length ps \<and> (\<forall>i < length ps. js ! i < n - i)
          \<and> draw_distinct (\<lambda>i. js ! i) [0..<n] (length ps) = ps"
      using js by simp
  next
    fix js' assume a: "length js' = length ps \<and> (\<forall>i < length ps. js' ! i < n - i)
          \<and> draw_distinct (\<lambda>i. js' ! i) [0..<n] (length ps) = ps"
    show "js' = js"
      by (rule draw_vector_unique [of "[0..<n]" js' "length ps" js]) (use a js in simp_all)
  qed
qed

lemma draw_distinct_at_positions:
  "draw_distinct rnd xs k = map (\<lambda>i. xs ! i) (draw_distinct rnd [0..<length xs] k)"
proof -
  have "draw_distinct rnd (map (\<lambda>i. xs ! i) [0..<length xs]) k
          = map (\<lambda>i. xs ! i) (draw_distinct rnd [0..<length xs] k)"
    by (rule draw_distinct_map)
  then show ?thesis by (simp add: map_nth)
qed

lemma mset_as_completed: "mset (as_completed order fs) = mset fs"
proof -
  have sub: "mset (as_completed order fs) \<subseteq># mset fs"
    by (simp add: as_completed_def mset_draw_distinct)
  have "size (mset (as_completed order fs)) = size (mset fs)"
    by (simp add: as_completed_def length_draw_distinct)
  then show ?thesis using sub
    by (metis mset_subset_size subset_mset.le_neq_trans less_irrefl)
qed

lemma set_as_completed: "set (as_completed order fs) = set fs"
  using mset_as_completed [of order fs] by (metis set_mset_mset)

lemma created_of_filter:
  "created_of rs =
     filter truthy (map (\<lambda>r. case r of Inr (Some m) \<Rightarrow> m | _ \<Rightarrow> JNull)
                        (filter (\<lambda>r. case r of Inr (Some m) \<Rightarrow> True | _ \<Rightarrow> False) rs))"
  by (induction rs rule: created_of.induct) auto

lemma mset_created_of: "mset rs = mset rs' \<Longrightarrow> mset (created_of rs) = mset (created_of rs')"
  by (simp add: created_of_filter)

lemma collect_created_results:
  "list_all is_result rs \<Longrightarrow> collect_created rs = Inr (created_of rs)"
  by (induction rs rule: collect_created.induct) auto

lemma collect_created_member:
  "collect_created rs = Inr ms \<Longrightarrow> m \<in> set ms \<Longrightarrow> truthy m \<and> Inr (Some m) \<in> set rs"
  by (induction rs arbitrary: ms rule: collect_created.induct)
     (auto split: sum.splits if_splits)

lemma validate_all_length: "validate_all MatchGet ms = Inr vs \<Longrightarrow> length vs = length ms"
  by (induction ms arbitrary: vs) (auto split: sum.splits)

lemma validate_all_member:
  "validate_all MatchGet ms = Inr vs \<Longrightarrow> v \<in> set vs \<Longrightarrow>
     \<exists>m \<in> set ms. validate_match MatchGet m = Inr v"
  by (induction ms arbitrary: vs) (auto split: sum.splits)


lemma py_get_peer_id:
  "py_get m ''user_id'' JNull = Inr peer \<Longrightarrow> is_dict m \<and> peer_id m = peer"
  by (cases m) (simp_all add: peer_id_def)

lemma exclude_user_filter:
  "exclude_user uid ms = Inr others \<Longrightarrow>
     list_all is_dict ms \<and> others = filter (\<lambda>m. peer_id m \<noteq> JStr uid) ms"
proof (induction ms arbitrary: others)
  case Nil
  then show ?case by simp
next
  case (Cons m ms)
  obtain peer rest where p: "py_get m ''user_id'' JNull = Inr peer"
    and r: "exclude_user uid ms = Inr rest"
    and o: "others = (if peer \<noteq> JStr uid then m # rest else rest)"
    using Cons.prems by (auto split: sum.splits)
  have m: "is_dict m \<and> peer_id m = peer" using p by (rule py_get_peer_id)
  have "list_all is_dict ms \<and> rest = filter (\<lambda>m. peer_id m \<noteq> JStr uid) ms"
    using r by (rule Cons.IH)
  then show ?case using m o by simp
qed

lemma find_other_members_peers:
  assumes "find_other_members env rep uid purl tr = (Inr (pid, others), tr1)"
  shows "list_all (\<lambda>m. is_dict m \<and> peer_id m \<noteq> JStr uid) others"
proof -
  obtain ms where "exclude_user uid ms = Inr others"
    using assms
    by (auto simp: find_other_members_def Let_def split: sum.splits if_splits prod.splits)
  then have "list_all is_dict ms \<and> others = filter (\<lambda>m. peer_id m \<noteq> JStr uid) ms"
    by (rule exclude_user_filter)
  then show ?thesis by (auto simp: list_all_iff)
qed

lemma create_match_dict:
  "is_dict member \<Longrightarrow>
     create_match env rep murl pid uid member tr =
       (Inr (case checked_json (env tr (create_match_request rep murl pid uid (peer_id member))) of
               Inl e \<Rightarrow> None | Inr m \<Rightarrow> Some m),
        tr @ [create_match_request rep murl pid uid (peer_id member)])"
  by (cases member)
     (auto simp: create_match_def peer_id_def Let_def split: sum.splits dest: checked_json_Inl)

lemma submit_all_dicts:
  "list_all is_dict ms \<Longrightarrow>
     list_all is_result (fst (submit_all env rep murl pid uid ms tr))
     \<and> length (fst (submit_all env rep murl pid uid ms tr)) = length ms
     \<and> snd (submit_all env rep murl pid uid ms tr) =
         tr @ map (\<lambda>m. create_match_request rep murl pid uid (peer_id m)) ms"
proof (induction ms arbitrary: tr)
  case Nil
  show ?case by simp
next
  case (Cons m ms)
  then have m: "is_dict m" and ms: "list_all is_dict ms" by simp_all
  show ?case
    using Cons.IH [OF ms, of "tr @ [create_match_request rep murl pid uid (peer_id m)]"]
    by (auto simp: create_match_dict [OF m] split: prod.splits)
qed

lemma submit_all_nth:
  "list_all is_dict ms \<Longrightarrow> i < length ms \<Longrightarrow>
     fst (submit_all env rep murl pid uid ms tr) ! i =
       Inr (case checked_json
                   (env (tr @ map (\<lambda>m. create_match_request rep murl pid uid (peer_id m)) (take i ms))
                        (create_match_request rep murl pid uid (peer_id (ms ! i)))) of
              Inl e \<Rightarrow> None | Inr m \<Rightarrow> Some m)"
proof (induction ms arbitrary: tr i)
  case Nil
  then show ?case by simp
next
  case (Cons m ms)
  then have m: "is_dict m" and ms: "list_all is_dict ms" by simp_all
  show ?case
  proof (cases i)
    case 0
    then show ?thesis by (simp add: create_match_dict [OF m] split: prod.splits)
  next
    case (Suc j)
    then have j: "j < length ms" using Cons.prems by simp
    show ?thesis
      using Cons.IH [OF ms j, of "tr @ [create_match_request rep murl pid uid (peer_id m)]"] Suc
      by (auto simp: create_match_dict [OF m] split: prod.splits)
  qed
qed

lemma submit_all_success:
  "Inr (Some b) \<in> set (fst (submit_all env rep murl pid uid ms tr)) \<Longrightarrow>
     \<exists>tr0 rest peer.
        snd (submit_all env rep murl pid uid ms tr) =
          tr0 @ create_match_request rep murl pid uid peer # rest
      \<and> checked_json (env tr0 (create_match_request rep murl pid uid peer)) = Inr b"
proof (induction ms arbitrary: tr)
  case Nil
  then show ?case by simp
next
  case (Cons m ms)
  obtain r tr1 where c: "create_match env rep murl pid uid m tr = (r, tr1)"
    by (cases "create_match env rep murl pid uid m tr")
  obtain rs tr2 where s: "submit_all env rep murl pid uid ms tr1 = (rs, tr2)"
    by (cases "submit_all env rep murl pid uid ms tr1")
  have all: "submit_all env rep murl pid uid (m # ms) tr = (r # rs, tr2)"
    using c s by simp
  from Cons.prems all have "r = Inr (Some b) \<or> Inr (Some b) \<in> set rs" by auto
  then show ?case
  proof
    assume r: "r = Inr (Some b)"
    obtain peer where p: "py_get m ''user_id'' JNull = Inr peer"
      and ok: "checked_json (env tr (create_match_request rep murl pid uid peer)) = Inr b"
      and t1: "tr1 = tr @ [create_match_request rep murl pid uid peer]"
      using c r by (auto simp: create_match_def Let_def split: sum.splits if_splits)
    obtain ext where "tr2 = tr1 @ ext"
      using submit_all_trace [of env rep murl pid uid ms tr1] s by auto
    then have "tr2 = tr @ create_match_request rep murl pid uid peer # ext" using t1 by simp
    then show ?thesis using all ok by auto
  next
    assume "Inr (Some b) \<in> set rs"
    then have "Inr (Some b) \<in> set (fst (submit_all env rep murl pid uid ms tr1))" using s by simp
    from Cons.IH [OF this] show ?thesis using all s by simp
  qed
qed


lemma length_created_of: "length (created_of rs) \<le> length rs"
  by (induction rs rule: created_of.induct) (auto simp: le_SucI)

lemma list_all_is_dict_draw:
  "list_all is_dict xs \<Longrightarrow> list_all is_dict (draw_distinct rnd xs k)"
proof -
  assume a: "list_all is_dict xs"
  have "set (draw_distinct rnd xs k) \<subseteq> set xs"
    using mset_draw_distinct [of rnd xs k] by (metis set_mset_mono set_mset_mset)
  then show ?thesis using a by (auto simp: list_all_iff)
qed

lemma list_all_as_completed:
  "list_all P fs \<Longrightarrow> list_all P (as_completed order fs)"
  by (simp add: list_all_iff set_as_completed)

lemma random_sample_nonneg:
  "0 \<le> mm \<Longrightarrow>
     random_sample rnd xs (min mm (int (length xs))) =
       Inr (draw_distinct rnd xs (min (nat mm) (length xs)))"
proof -
  assume "0 \<le> mm"
  then have "nat (min mm (int (length xs))) = min (nat mm) (length xs)" by auto
  then show ?thesis using \<open>0 \<le> mm\<close> by (simp add: random_sample_def)
qed

lemma create_matches_unfolded:
  assumes dicts: "list_all is_dict others" and nonneg: "0 \<le> mm"
  shows "create_matches env rep rnd order MatchGet uid murl mm pid others tr1 =
     (case validate_all MatchGet
             (created_of (as_completed order
                (fst (submit_all env rep murl pid uid
                        (draw_distinct rnd others (min (nat mm) (length others))) tr1)))) of
        Inl e \<Rightarrow> Inl e
      | Inr vs \<Rightarrow>
          Inr \<lparr>message = ''Generated '' @ rep (JInt (int (length vs))) @ '' matches for user '' @ uid,
                gm_pool_id = pid, matches_created = length vs, matches = vs\<rparr>,
      tr1 @ map (\<lambda>m. create_match_request rep murl pid uid (peer_id m))
                (draw_distinct rnd others (min (nat mm) (length others))))"
proof -
  let ?sel = "draw_distinct rnd others (min (nat mm) (length others))"
  have sel: "list_all is_dict ?sel" using dicts by (rule list_all_is_dict_draw)
  obtain fs tr2 where s: "submit_all env rep murl pid uid ?sel tr1 = (fs, tr2)"
    by (cases "submit_all env rep murl pid uid ?sel tr1")
  have fs: "list_all is_result fs"
    and t2: "tr2 = tr1 @ map (\<lambda>m. create_match_request rep murl pid uid (peer_id m)) ?sel"
    using submit_all_dicts [OF sel, of env rep murl pid uid tr1] s by simp_all
  have c: "collect_created (as_completed order fs) = Inr (created_of (as_completed order fs))"
    using fs by (intro collect_created_results list_all_as_completed)
  show ?thesis
    using s c t2 random_sample_nonneg [OF nonneg, of rnd others]
    by (simp add: create_matches_def split: sum.splits)
qed

lemma generate_matches_unfolded:
  assumes found: "find_other_members env rep uid purl tr = (Inr (pid, others), tr1)"
      and some: "others \<noteq> []" and nonneg: "0 \<le> mm"
  shows "generate_matches_for_user_service env rep rnd order MatchGet uid murl purl mm tr =
     except_with reraise_value_wrap_request
       (create_matches env rep rnd order MatchGet uid murl mm pid others tr1)"
  using found some
  by (simp add: generate_matches_for_user_service_def generate_matches_try_def)

lemma generate_matches_alone:
  assumes found: "find_other_members env rep uid purl tr = (Inr (pid, []), tr1)"
  shows "generate_matches_for_user_service env rep rnd order MatchGet uid murl purl mm tr =
     (Inr \<lparr>message = ''No other users in the pool to match with'', gm_pool_id = pid,
           matches_created = 0, matches = []\<rparr>, tr1)"
  using found
  by (simp add: generate_matches_for_user_service_def generate_matches_try_def except_with_def)

lemma nyc_generate:
  "generate_matches_for_user_service nyc_upstream py_print first_draws first_draws accept_with_id
     ''u1'' ''M'' ''P'' 10 [] =
   (Inr \<lparr>message = ''Generated 1 matches for user u1'', gm_pool_id = JStr ''p1'',
         matches_created = 1,
         matches = [[(''match_id'', JStr ''m12''), (''user1_id'', JStr ''u1''),
                     (''user2_id'', JStr ''u2'')]]\<rparr>,
    [members_lookup_request ''P'' ''u1'', pool_details_request py_print ''P'' (JStr ''p1''),
     pool_members_request py_print ''P'' (JStr ''p1''),
     create_match_request py_print ''M'' (JStr ''p1'') ''u1'' (JStr ''u2''),
     create_match_request py_print ''M'' (JStr ''p1'') ''u1'' (JStr ''u3'')])"
  by code_simp

subsection \<open>The returned record\<close>

text \<open>
  C9. For every successful \<^verbatim>\<open>GenerateMatches\<close> invocation, in the zero-peer branch as in the
  match-creation branch, \<^verbatim>\<open>matches_created\<close> is the length of the returned \<^verbatim>\<open>matches\<close>, and each
  returned match is what the validator made of the truthy body of a creation call that the
  request issued and that succeeded.
\<close>

theorem generate_matches_counts:
  assumes run: "generate_matches_for_user_service env rep rnd order MatchGet uid murl purl mm tr
                  = (Inr r, tr')"
  shows "matches_created r = length (matches r)
       \<and> (\<forall>v \<in> set (matches r). \<exists>b tr0 rest peer.
             tr' = tr0 @ create_match_request rep murl (gm_pool_id r) uid peer # rest
           \<and> checked_json (env tr0 (create_match_request rep murl (gm_pool_id r) uid peer)) = Inr b
           \<and> truthy b
           \<and> validate_match MatchGet b = Inr v)"
proof -
  have body: "generate_matches_try env rep rnd order MatchGet uid murl purl mm tr = (Inr r, tr')"
    using run
    by (auto simp: generate_matches_for_user_service_def except_with_def
          split: prod.splits sum.splits)
  obtain pid others tr1 where
    found: "find_other_members env rep uid purl tr = (Inr (pid, others), tr1)"
    using body by (auto simp: generate_matches_try_def split: prod.splits sum.splits)
  show ?thesis
  proof (cases "others = []")
    case True
    then have "r = \<lparr>message = ''No other users in the pool to match with'', gm_pool_id = pid,
                     matches_created = 0, matches = []\<rparr>"
      using body found by (simp add: generate_matches_try_def)
    then show ?thesis by simp
  next
    case False
    then have cm: "create_matches env rep rnd order MatchGet uid murl mm pid others tr1 = (Inr r, tr')"
      using body found by (simp add: generate_matches_try_def)
    obtain sel where sel: "random_sample rnd others (min mm (int (length others))) = Inr sel"
      using cm by (auto simp: create_matches_def split: sum.splits)
    obtain fs tr2 where sub: "submit_all env rep murl pid uid sel tr1 = (fs, tr2)"
      by (cases "submit_all env rep murl pid uid sel tr1")
    obtain created where col: "collect_created (as_completed order fs) = Inr created"
      using cm sel sub by (auto simp: create_matches_def split: sum.splits)
    obtain vs where val: "validate_all MatchGet created = Inr vs"
      using cm sel sub col by (auto simp: create_matches_def split: sum.splits)
    have r: "matches r = vs" "matches_created r = length vs" "gm_pool_id r = pid" "tr' = tr2"
      using cm sel sub col val by (auto simp: create_matches_def)
    have each: "\<exists>b tr0 rest peer.
             tr' = tr0 @ create_match_request rep murl (gm_pool_id r) uid peer # rest
           \<and> checked_json (env tr0 (create_match_request rep murl (gm_pool_id r) uid peer)) = Inr b
           \<and> truthy b
           \<and> validate_match MatchGet b = Inr v" if v: "v \<in> set (matches r)" for v
    proof -
      obtain b where b: "b \<in> set created" and vb: "validate_match MatchGet b = Inr v"
        using validate_all_member [OF val] v r(1) by blast
      have tb: "truthy b" and "Inr (Some b) \<in> set (as_completed order fs)"
        using collect_created_member [OF col b] by simp_all
      then have "Inr (Some b) \<in> set (fst (submit_all env rep murl pid uid sel tr1))"
        using sub by (simp add: set_as_completed)
      from submit_all_success [OF this] obtain tr0 rest peer where
        "tr2 = tr0 @ create_match_request rep murl pid uid peer # rest"
        "checked_json (env tr0 (create_match_request rep murl pid uid peer)) = Inr b"
        using sub by auto
      then show ?thesis using r tb vb by blast
    qed
    show ?thesis using r(1,2) each by blast
  qed
qed

theorem generate_matches_counts_witness:
  "generate_matches_for_user_service nyc_upstream py_print first_draws first_draws accept_with_id
     ''u1'' ''M'' ''P'' 10 [] =
   (Inr \<lparr>message = ''Generated 1 matches for user u1'', gm_pool_id = JStr ''p1'',
         matches_created = 1,
         matches = [[(''match_id'', JStr ''m12''), (''user1_id'', JStr ''u1''),
                     (''user2_id'', JStr ''u2'')]]\<rparr>,
    [members_lookup_request ''P'' ''u1'', pool_details_request py_print ''P'' (JStr ''p1''),
     pool_members_request py_print ''P'' (JStr ''p1''),
     create_match_request py_print ''M'' (JStr ''p1'') ''u1'' (JStr ''u2''),
     create_match_request py_print ''M'' (JStr ''p1'') ''u1'' (JStr ''u3'')])
   \<and> (\<exists>b tr0 rest peer.
         [members_lookup_request ''P'' ''u1'', pool_details_request py_print ''P'' (JStr ''p1''),
          pool_members_request py_print ''P'' (JStr ''p1''),
          create_match_request py_print ''M'' (JStr ''p1'') ''u1'' (JStr ''u2''),
          create_match_request py_print ''M'' (JStr ''p1'') ''u1'' (JStr ''u3'')]
           = tr0 @ create_match_request py_print ''M'' (JStr ''p1'') ''u1'' peer # rest
       \<and> checked_json (nyc_upstream tr0 (create_match_request py_print ''M'' (JStr ''p1'') ''u1'' peer))
           = Inr b
       \<and> truthy b
       \<and> validate_match accept_with_id b =
           Inr [(''match_id'', JStr ''m12''), (''user1_id'', JStr ''u1''), (''user2_id'', JStr ''u2'')])"
  using nyc_generate generate_matches_counts [OF nyc_generate]
  by simp

subsection \<open>The peers selected\<close>

lemma lonely_found:
  "find_other_members lonely_upstream py_print ''u1'' ''P'' [] =
     (Inr (JStr ''p1'', []),
      [members_lookup_request ''P'' ''u1'', pool_details_request py_print ''P'' (JStr ''p1''),
       pool_members_request py_print ''P'' (JStr ''p1'')])"
  by code_simp

lemma nyc_found:
  "find_other_members nyc_upstream py_print ''u1'' ''P'' [] =
     (Inr (JStr ''p1'', [JObj [(''user_id'', JStr ''u2'')], JObj [(''user_id'', JStr ''u3'')]]),
      [members_lookup_request ''P'' ''u1'', pool_details_request py_print ''P'' (JStr ''p1''),
       pool_members_request py_print ''P'' (JStr ''p1'')])"
  by code_simp

lemma py_str_differs:
  "v \<noteq> JStr uid \<Longrightarrow> \<forall>w. rep w \<noteq> uid \<Longrightarrow> py_str rep v \<noteq> uid"
  by (cases v) simp_all

lemma length_as_completed: "length (as_completed order fs) = length fs"
  by (simp add: as_completed_def length_draw_distinct)

lemma generate_matches_bound:
  assumes found: "find_other_members env rep uid purl tr = (Inr (pid, others), tr1)"
      and nonneg: "0 \<le> mm"
      and run: "generate_matches_for_user_service env rep rnd order MatchGet uid murl purl mm tr
                  = (Inr r, tr')"
  shows "length (matches r) \<le> min (nat mm) (length others)"
proof (cases "others = []")
  case True
  then have "find_other_members env rep uid purl tr = (Inr (pid, []), tr1)"
    using found by simp
  then have "generate_matches_for_user_service env rep rnd order MatchGet uid murl purl mm tr =
     (Inr \<lparr>message = ''No other users in the pool to match with'', gm_pool_id = pid,
           matches_created = 0, matches = []\<rparr>, tr1)"
    by (rule generate_matches_alone)
  then have "matches r = []" using run by auto
  then show ?thesis by simp
next
  case False
  let ?sel = "draw_distinct rnd others (min (nat mm) (length others))"
  let ?fs = "fst (submit_all env rep murl pid uid ?sel tr1)"
  have dicts: "list_all is_dict others"
    using find_other_members_peers [OF found] by (simp add: list_all_iff)
  have sel: "list_all is_dict ?sel" using dicts by (rule list_all_is_dict_draw)
  have len_fs: "length ?fs = length ?sel"
    using submit_all_dicts [OF sel, of env rep murl pid uid tr1] by simp
  obtain vs where vs: "validate_all MatchGet (created_of (as_completed order ?fs)) = Inr vs"
    and r: "matches r = vs"
    using run
    by (auto simp: generate_matches_unfolded [OF found False nonneg]
          create_matches_unfolded [OF dicts nonneg] except_with_def split: sum.splits)
  have "length vs = length (created_of (as_completed order ?fs))"
    using vs by (rule validate_all_length)
  also have "\<dots> \<le> length (as_completed order ?fs)" by (rule length_created_of)
  also have "\<dots> = length ?sel" using len_fs by (simp add: length_as_completed)
  also have "\<dots> = min (nat mm) (length others)" by (simp add: length_draw_distinct)
  finally show ?thesis using r by simp
qed

text \<open>
  C2. \<^verbatim>\<open>max_matches\<close> is a count: not negative, 10 by default and in the route. Let steps 1
  and 2 and the filter succeed with the pool \<open>pid\<close> and the candidates \<open>others\<close>, the pool
  members other than the requesting user; \<^verbatim>\<open>peer_count\<close> is their number. Then

  \<^item> every candidate is a member object whose \<^verbatim>\<open>user_id\<close> is not \<^verbatim>\<open>str(user_id)\<close>; and when Python
    prints no other value as the text of the user's id, no \<^verbatim>\<open>user2_id\<close> sent equals the
    \<^verbatim>\<open>user1_id\<close>;
  \<^item> the peers selected are \<^verbatim>\<open>min(max_matches, peer_count)\<close> draws without replacement from the
    candidates: the candidates at the positions drawn, which are pairwise distinct;
  \<^item> the sample is uniform: every sequence of distinct positions is the sample for exactly
    one vector of draws in their ranges (the first among \<open>n\<close> values, the second among
    \<open>n - 1\<close>, and so on), so all sequences of the same length are equally likely;
  \<^item> the calls issued after the listing are the creation calls of the selected peers, one
    each (in the order of submission, as the worker pool is modelled);
  \<^item> a returned list of matches has at most \<^verbatim>\<open>min(max_matches, peer_count)\<close> entries, in the
    service for every \<^verbatim>\<open>max_matches \<ge> 0\<close> and in the route, which passes 10;
  \<^item> with no candidate the result is the zero-match record, not an error.
\<close>

theorem generate_matches_selection:
  assumes found: "find_other_members env rep uid purl tr = (Inr (pid, others), tr1)"
      and nonneg: "0 \<le> mm"
  shows "list_all (\<lambda>m. is_dict m \<and> peer_id m \<noteq> JStr uid) others
       \<and> ((\<forall>w. rep w \<noteq> uid) \<longrightarrow> list_all (\<lambda>m. py_str rep (peer_id m) \<noteq> uid) others)
       \<and> mset (draw_distinct rnd others (min (nat mm) (length others))) \<subseteq># mset others
       \<and> length (draw_distinct rnd others (min (nat mm) (length others)))
           = min (nat mm) (length others)
       \<and> (\<exists>ps. distinct ps \<and> set ps \<subseteq> {..<length others}
              \<and> draw_distinct rnd others (min (nat mm) (length others)) = map (\<lambda>i. others ! i) ps)
       \<and> (\<forall>ps. distinct ps \<and> set ps \<subseteq> {..<length others}
              \<longrightarrow> (\<exists>rnd'. draw_distinct rnd' others (length ps) = map (\<lambda>i. others ! i) ps))
       \<and> draw_distinct rnd others (min (nat mm) (length others)) =
           map (\<lambda>i. others ! i)
               (draw_distinct rnd [0..<length others] (min (nat mm) (length others)))
       \<and> (\<forall>ps. distinct ps \<and> set ps \<subseteq> {..<length others}
              \<longrightarrow> (\<exists>!js. length js = length ps
                        \<and> (\<forall>i < length ps. js ! i < length others - i)
                        \<and> draw_distinct (\<lambda>i. js ! i) [0..<length others] (length ps) = ps))
       \<and> snd (generate_matches_for_user_service env rep rnd order MatchGet uid murl purl mm tr) =
           tr1 @ map (\<lambda>m. create_match_request rep murl pid uid (peer_id m))
                     (draw_distinct rnd others (min (nat mm) (length others)))
       \<and> (\<forall>r tr'. generate_matches_for_user_service env rep rnd order MatchGet uid murl purl mm tr
                     = (Inr r, tr')
             \<longrightarrow> length (matches r) \<le> min (nat mm) (length others)
               \<and> int (length (matches r)) \<le> min mm (int (length others)))
       \<and> (\<forall>r tr'. generate_matches_for_user env rep rnd order MatchGet murl purl uid tr
                     = (Returned r, tr')
             \<longrightarrow> length (matches r) \<le> min 10 (length others))
       \<and> (others = [] \<longrightarrow>
            generate_matches_for_user_service env rep rnd order MatchGet uid murl purl mm tr =
              (Inr \<lparr>message = ''No other users in the pool to match with'', gm_pool_id = pid,
                    matches_created = 0, matches = []\<rparr>, tr1))"
proof -
  let ?sel = "draw_distinct rnd others (min (nat mm) (length others))"
  let ?run = "generate_matches_for_user_service env rep rnd order MatchGet uid murl purl mm tr"
  have peers: "list_all (\<lambda>m. is_dict m \<and> peer_id m \<noteq> JStr uid) others"
    using found by (rule find_other_members_peers)
  then have dicts: "list_all is_dict others" by (simp add: list_all_iff)
  have strs: "list_all (\<lambda>m. py_str rep (peer_id m) \<noteq> uid) others" if "\<forall>w. rep w \<noteq> uid"
    using peers that py_str_differs [of _ uid rep] by (simp add: list_all_iff)
  have zero: "?run = (Inr \<lparr>message = ''No other users in the pool to match with'',
                           gm_pool_id = pid, matches_created = 0, matches = []\<rparr>, tr1)"
    if "others = []"
    using found that generate_matches_alone by simp
  have tr_eq: "snd ?run = tr1 @ map (\<lambda>m. create_match_request rep murl pid uid (peer_id m)) ?sel"
  proof (cases "others = []")
    case True
    then have "?sel = []" by (cases "min (nat mm) (length others)") simp_all
    then show ?thesis using zero [OF True] by simp
  next
    case False
    show ?thesis
      by (simp add: generate_matches_unfolded [OF found False nonneg]
            create_matches_unfolded [OF dicts nonneg] except_with_def split: sum.splits)
  qed
  have bound: "length (matches r) \<le> min (nat mm) (length others)
               \<and> int (length (matches r)) \<le> min mm (int (length others))"
    if run: "?run = (Inr r, tr')" for r tr'
  proof -
    have "length (matches r) \<le> min (nat mm) (length others)"
      using found nonneg run by (rule generate_matches_bound)
    then show ?thesis using nonneg by auto
  qed
  have route: "length (matches r) \<le> min 10 (length others)"
    if run: "generate_matches_for_user env rep rnd order MatchGet murl purl uid tr
               = (Returned r, tr')" for r tr'
  proof -
    have ten: "(0::int) \<le> 10" by simp
    have "generate_matches_for_user_service env rep rnd order MatchGet uid murl purl 10 tr
            = (Inr r, tr')"
      using run
      by (auto simp: generate_matches_for_user_def split: prod.splits sum.splits if_splits)
    from generate_matches_bound [OF found ten this] show ?thesis by simp
  qed
  have len_sel: "length ?sel = min (nat mm) (length others)"
    by (simp add: length_draw_distinct)
  have sub_sel: "mset ?sel \<subseteq># mset others"
    by (rule mset_draw_distinct)
  have pos: "\<exists>ps. distinct ps \<and> set ps \<subseteq> {..<length others} \<and> ?sel = map (\<lambda>i. others ! i) ps"
    using draw_distinct_positions [of others "min (nat mm) (length others)" rnd] by blast
  have reach: "\<forall>ps. distinct ps \<and> set ps \<subseteq> {..<length others}
              \<longrightarrow> (\<exists>rnd'. draw_distinct rnd' others (length ps) = map (\<lambda>i. others ! i) ps)"
    using draw_distinct_reaches_positions by blast
  have at: "?sel = map (\<lambda>i. others ! i)
                     (draw_distinct rnd [0..<length others] (min (nat mm) (length others)))"
    by (rule draw_distinct_at_positions)
  have uniq: "\<forall>ps. distinct ps \<and> set ps \<subseteq> {..<length others}
              \<longrightarrow> (\<exists>!js. length js = length ps
                        \<and> (\<forall>i < length ps. js ! i < length others - i)
                        \<and> draw_distinct (\<lambda>i. js ! i) [0..<length others] (length ps) = ps)"
    using draw_vector_unique_positions by blast
  show ?thesis
    using peers strs sub_sel len_sel pos reach at uniq tr_eq bound route zero by blast
qed

theorem generate_matches_selection_witness:
  "find_other_members nyc_upstream py_print ''u1'' ''P'' [] =
     (Inr (JStr ''p1'', [JObj [(''user_id'', JStr ''u2'')], JObj [(''user_id'', JStr ''u3'')]]),
      [members_lookup_request ''P'' ''u1'', pool_details_request py_print ''P'' (JStr ''p1''),
       pool_members_request py_print ''P'' (JStr ''p1'')])
   \<and> (0::int) \<le> 10
   \<and> (\<forall>w. py_print w \<noteq> ''u1'')
   \<and> list_all (\<lambda>m. py_str py_print (peer_id m) \<noteq> ''u1'')
        [JObj [(''user_id'', JStr ''u2'')], JObj [(''user_id'', JStr ''u3'')]]
   \<and> distinct [1::nat, 0]
   \<and> set [1::nat, 0]
        \<subseteq> {..<length [JObj [(''user_id'', JStr ''u2'')], JObj [(''user_id'', JStr ''u3'')]]}
   \<and> (\<exists>rnd'. draw_distinct rnd'
                 [JObj [(''user_id'', JStr ''u2'')], JObj [(''user_id'', JStr ''u3'')]]
                 (length [1::nat, 0]) =
               map (\<lambda>i. [JObj [(''user_id'', JStr ''u2'')], JObj [(''user_id'', JStr ''u3'')]] ! i)
                   [1, 0])
   \<and> (\<exists>!js. length js = length [1::nat, 0]
            \<and> (\<forall>i < length [1::nat, 0].
                   js ! i < length [JObj [(''user_id'', JStr ''u2'')],
                                    JObj [(''user_id'', JStr ''u3'')]] - i)
            \<and> draw_distinct (\<lambda>i. js ! i)
                 [0..<length [JObj [(''user_id'', JStr ''u2'')], JObj [(''user_id'', JStr ''u3'')]]]
                 (length [1::nat, 0]) = [1, 0])
   \<and> generate_matches_for_user_service nyc_upstream py_print first_draws first_draws accept_with_id
        ''u1'' ''M'' ''P'' 10 [] =
      (Inr \<lparr>message = ''Generated 1 matches for user u1'', gm_pool_id = JStr ''p1'',
            matches_created = 1,
            matches = [[(''match_id'', JStr ''m12''), (''user1_id'', JStr ''u1''),
                        (''user2_id'', JStr ''u2'')]]\<rparr>,
       [members_lookup_request ''P'' ''u1'', pool_details_request py_print ''P'' (JStr ''p1''),
        pool_members_request py_print ''P'' (JStr ''p1''),
        create_match_request py_print ''M'' (JStr ''p1'') ''u1'' (JStr ''u2''),
        create_match_request py_print ''M'' (JStr ''p1'') ''u1'' (JStr ''u3'')])
   \<and> length [[(''match_id'', JStr ''m12''), (''user1_id'', JStr ''u1''), (''user2_id'', JStr ''u2'')]]
        \<le> min (nat 10)
              (length [JObj [(''user_id'', JStr ''u2'')], JObj [(''user_id'', JStr ''u3'')]])
   \<and> fst (generate_matches_for_user nyc_upstream py_print first_draws first_draws accept_with_id
             ''M'' ''P'' ''u1'' []) =
       Returned \<lparr>message = ''Generated 1 matches for user u1'', gm_pool_id = JStr ''p1'',
            matches_created = 1,
            matches = [[(''match_id'', JStr ''m12''), (''user1_id'', JStr ''u1''),
                        (''user2_id'', JStr ''u2'')]]\<rparr>
   \<and> find_other_members lonely_upstream py_print ''u1'' ''P'' [] =
       (Inr (JStr ''p1'', []),
        [members_lookup_request ''P'' ''u1'', pool_details_request py_print ''P'' (JStr ''p1''),
         pool_members_request py_print ''P'' (JStr ''p1'')])
   \<and> generate_matches_for_user_service lonely_upstream py_print first_draws first_draws
        accept_with_id ''u1'' ''M'' ''P'' 10 [] =
       (Inr \<lparr>message = ''No other users in the pool to match with'', gm_pool_id = JStr ''p1'',
             matches_created = 0, matches = []\<rparr>,
        [members_lookup_request ''P'' ''u1'', pool_details_request py_print ''P'' (JStr ''p1''),
         pool_members_request py_print ''P'' (JStr ''p1'')])"
proof -
  have ten: "(0::int) \<le> 10" by simp
  have p: "\<forall>w. py_print w \<noteq> ''u1''"
    by (simp add: py_print_def split: json.splits)
  note n = generate_matches_selection [where env = nyc_upstream and rep = py_print
      and uid = "''u1''" and purl = "''P''" and tr = "[]" and rnd = first_draws
      and order = first_draws and MatchGet = accept_with_id and murl = "''M''" and mm = 10,
      OF nyc_found ten]
  note l = generate_matches_selection [where env = lonely_upstream and rep = py_print
      and uid = "''u1''" and purl = "''P''" and tr = "[]" and rnd = first_draws
      and order = first_draws and MatchGet = accept_with_id and murl = "''M''" and mm = 10,
      OF lonely_found ten]
  have a: "list_all (\<lambda>m. py_str py_print (peer_id m) \<noteq> ''u1'')
        [JObj [(''user_id'', JStr ''u2'')], JObj [(''user_id'', JStr ''u3'')]]"
    using n p by blast
  have b: "length [[(''match_id'', JStr ''m12''), (''user1_id'', JStr ''u1''), (''user2_id'', JStr ''u2'')]]
        \<le> min (nat 10)
              (length [JObj [(''user_id'', JStr ''u2'')], JObj [(''user_id'', JStr ''u3'')]])"
    by simp
  have c: "generate_matches_for_user_service lonely_upstream py_print first_draws first_draws
        accept_with_id ''u1'' ''M'' ''P'' 10 [] =
       (Inr \<lparr>message = ''No other users in the pool to match with'', gm_pool_id = JStr ''p1'',
             matches_created = 0, matches = []\<rparr>,
        [members_lookup_request ''P'' ''u1'', pool_details_request py_print ''P'' (JStr ''p1''),
         pool_members_request py_print ''P'' (JStr ''p1'')])"
    using l by blast
  have d: "distinct [1::nat, 0]" by simp
  have e: "set [1::nat, 0]
        \<subseteq> {..<length [JObj [(''user_id'', JStr ''u2'')], JObj [(''user_id'', JStr ''u3'')]]}"
    by simp
  have f: "\<exists>rnd'. draw_distinct rnd'
                 [JObj [(''user_id'', JStr ''u2'')], JObj [(''user_id'', JStr ''u3'')]]
                 (length [1::nat, 0]) =
               map (\<lambda>i. [JObj [(''user_id'', JStr ''u2'')], JObj [(''user_id'', JStr ''u3'')]] ! i)
                   [1, 0]"
    using n d e by blast
  have g: "\<exists>!js. length js = length [1::nat, 0]
            \<and> (\<forall>i < length [1::nat, 0].
                   js ! i < length [JObj [(''user_id'', JStr ''u2'')],
                                    JObj [(''user_id'', JStr ''u3'')]] - i)
            \<and> draw_distinct (\<lambda>i. js ! i)
                 [0..<length [JObj [(''user_id'', JStr ''u2'')], JObj [(''user_id'', JStr ''u3'')]]]
                 (length [1::nat, 0]) = [1, 0]"
    using n d e by blast
  have h: "fst (generate_matches_for_user nyc_upstream py_print first_draws first_draws
             accept_with_id ''M'' ''P'' ''u1'' []) =
       Returned \<lparr>message = ''Generated 1 matches for user u1'', gm_pool_id = JStr ''p1'',
            matches_created = 1,
            matches = [[(''match_id'', JStr ''m12''), (''user1_id'', JStr ''u1''),
                        (''user2_id'', JStr ''u2'')]]\<rparr>"
    using nyc_generate by (simp add: generate_matches_for_user_def)
  show ?thesis using nyc_found ten p a d e f g nyc_generate b h lonely_found c by blast
qed

section \<open>Failures of single items\<close>

lemma collect_decisions_total:
  "list_all is_dict ms \<Longrightarrow>
     \<exists>ds tr'. collect_decisions env rep base uid ms tr = (Inr ds, tr') \<and> length ds \<le> length ms"
proof (induction ms arbitrary: tr)
  case Nil
  show ?case by simp
next
  case (Cons m ms)
  then have m: "is_dict m" and ms: "list_all is_dict ms" by simp_all
  obtain mid where mid: "py_get m ''match_id'' JNull = Inr mid"
    using m by (cases m) simp_all
  show ?case
  proof (cases "truthy mid")
    case False
    obtain ds tr' where "collect_decisions env rep base uid ms tr = (Inr ds, tr')"
      "length ds \<le> length ms"
      using Cons.IH [OF ms, of tr] by blast
    then show ?thesis using mid False by simp
  next
    case True
    obtain d tr1 where f: "fetch_decision env rep base uid mid tr = (d, tr1)"
      by (cases "fetch_decision env rep base uid mid tr")
    obtain ds tr' where "collect_decisions env rep base uid ms tr1 = (Inr ds, tr')"
      "length ds \<le> length ms"
      using Cons.IH [OF ms, of tr1] by blast
    then show ?thesis using mid True f by (cases d) simp_all
  qed
qed

lemma get_user_decisions_total:
  assumes "checked_json (env tr (list_matches_request base uid)) = Inr (JList ms)"
      and "list_all is_dict ms"
  shows "\<exists>ds tr'. get_user_decisions_from_service env rep uid base tr = (Inr ds, tr')
                  \<and> length ds \<le> length ms"
proof -
  obtain ds tr' where
    "collect_decisions env rep base uid ms (tr @ [list_matches_request base uid]) = (Inr ds, tr')"
    "length ds \<le> length ms"
    using collect_decisions_total [OF assms(2)] by blast
  then show ?thesis using assms(1)
    by (simp add: get_user_decisions_from_service_def get_user_decisions_try_def Let_def)
qed

lemma fetch_decision_None:
  "fst (fetch_decision env rep base uid mid t) = None \<longleftrightarrow>
     (env t (decision_request rep base mid uid) = NoResponse
      \<or> (\<exists>st b. env t (decision_request rep base mid uid) = Response st b
                 \<and> (st \<noteq> 200 \<or> b = None)))"
  by (auto simp: fetch_decision_def Let_def split: outcome.splits)

lemma fetch_decision_trace:
  "snd (fetch_decision env rep base uid mid t) = t @ [decision_request rep base mid uid]"
  by (simp add: fetch_decision_def Let_def)

lemma collect_decisions_skip:
  assumes "py_get m ''match_id'' JNull = Inr mid" and "truthy mid"
      and "fst (fetch_decision env rep base uid mid t) = None"
  shows "collect_decisions env rep base uid (m # rest) t =
           collect_decisions env rep base uid rest (t @ [decision_request rep base mid uid])"
proof -
  have "fetch_decision env rep base uid mid t = (None, t @ [decision_request rep base mid uid])"
    using assms(3) fetch_decision_trace [of env rep base uid mid t]
    by (cases "fetch_decision env rep base uid mid t") simp
  then show ?thesis using assms(1,2)
    by (cases "collect_decisions env rep base uid rest (t @ [decision_request rep base mid uid])")
       (auto split: sum.splits)
qed

lemma collect_decisions_keep:
  assumes "py_get m ''match_id'' JNull = Inr mid" and "truthy mid"
      and "fst (fetch_decision env rep base uid mid t) = Some d"
  shows "collect_decisions env rep base uid (m # rest) t =
           (case collect_decisions env rep base uid rest
                   (t @ [decision_request rep base mid uid]) of
              (Inl e, t2) \<Rightarrow> (Inl e, t2)
            | (Inr ds, t2) \<Rightarrow> (Inr (d # ds), t2))"
proof -
  have "fetch_decision env rep base uid mid t = (Some d, t @ [decision_request rep base mid uid])"
    using assms(3) fetch_decision_trace [of env rep base uid mid t]
    by (cases "fetch_decision env rep base uid mid t") simp
  then show ?thesis using assms(1,2)
    by (auto split: sum.splits prod.splits)
qed

lemma fetch_decision_kept:
  "fetch_decision env rep base uid mid t =
     (kept_decision (env t (decision_request rep base mid uid)),
      t @ [decision_request rep base mid uid])"
  by (simp add: fetch_decision_def kept_decision_def Let_def)

lemma map_filter_map: "List.map_filter f (map g xs) = List.map_filter (\<lambda>x. f (g x)) xs"
  by (induction xs) (simp_all split: option.splits)

lemma decisions_kept_Cons:
  "decisions_kept env tr (c # cs) =
     (case kept_decision (env tr c) of
        None \<Rightarrow> decisions_kept env (tr @ [c]) cs
      | Some d \<Rightarrow> d # decisions_kept env (tr @ [c]) cs)"
proof -
  have "[0..<length (c # cs)] = 0 # map Suc [0..<length cs]"
    by (simp add: upt_conv_Cons map_Suc_upt del: upt_Suc)
  then show ?thesis
    by (simp add: decisions_kept_def map_filter_map del: upt_Suc split: option.splits)
qed

lemma py_get_match_id_of:
  "is_dict m \<Longrightarrow> py_get m ''match_id'' JNull = Inr (match_id_of m)"
  by (cases m) (simp_all add: match_id_of_def)

lemma collect_decisions_closed:
  "list_all is_dict ms \<Longrightarrow>
     collect_decisions env rep base uid ms tr =
       (Inr (decisions_kept env tr (decision_calls rep base uid ms)),
        tr @ decision_calls rep base uid ms)"
proof (induction ms arbitrary: tr)
  case Nil
  show ?case by (simp add: decisions_kept_def decision_calls_def)
next
  case (Cons m ms)
  then have m: "is_dict m" and ms: "list_all is_dict ms" by simp_all
  note g = py_get_match_id_of [OF m]
  show ?case
  proof (cases "truthy (match_id_of m)")
    case False
    then have "decision_calls rep base uid (m # ms) = decision_calls rep base uid ms"
      by (simp add: decision_calls_def)
    then show ?thesis using g False Cons.IH [OF ms, of tr] by simp
  next
    case True
    let ?c = "decision_request rep base (match_id_of m) uid"
    have calls: "decision_calls rep base uid (m # ms) = ?c # decision_calls rep base uid ms"
      using True by (simp add: decision_calls_def)
    show ?thesis
      using g True Cons.IH [OF ms, of "tr @ [?c]"]
      by (simp add: calls decisions_kept_Cons fetch_decision_kept split: option.splits)
  qed
qed

lemma get_user_decisions_closed:
  assumes "checked_json (env tr (list_matches_request base uid)) = Inr (JList ms)"
      and "list_all is_dict ms"
  shows "get_user_decisions_from_service env rep uid base tr =
           (Inr (decisions_kept env (tr @ [list_matches_request base uid])
                   (decision_calls rep base uid ms)),
            tr @ list_matches_request base uid # decision_calls rep base uid ms)"
  using assms
  by (simp add: get_user_decisions_from_service_def get_user_decisions_try_def Let_def
        collect_decisions_closed)

text \<open>
  C3. In the two operations that tolerate partial failure, the failure of one upstream call
  among many is swallowed.

  \<^item> \<^verbatim>\<open>GenerateMatches\<close>, once the candidates are found, not empty, and \<^verbatim>\<open>max_matches \<ge> 0\<close>: no
    future holds an exception; the future of the \<open>i\<close>-th selected peer holds \<^verbatim>\<open>None\<close> exactly
    when its creation call failed (no response, an error status, or a body that is not
    JSON) and the body otherwise; the matches collected are the truthy bodies, whatever the
    order of completion; and the outcome of the request is computed from these alone, so it
    is an error only when the validation of a created match raises.
  \<^item> \<^verbatim>\<open>ListUserDecisions\<close>, once the match listing returns a list of objects: the request
    returns a list of decisions, whatever the outcomes of the decision calls. It issues one
    decision call for every listed match with a truthy \<^verbatim>\<open>match_id\<close>, in the order of the
    listing and whatever the earlier calls answered, and it returns exactly the bodies of the
    calls that answered 200 with JSON, in that order. A decision
    call that fails (no response, a status other than 200, or a body that is not JSON)
    leaves the result what it is for the remaining matches; one that succeeds adds its body
    in front of it.
\<close>

theorem partial_failures_are_skipped:
  "(find_other_members env rep uid purl tr = (Inr (pid, others), trf) \<and> others \<noteq> [] \<and> 0 \<le> mm
      \<and> selected = draw_distinct rnd others (min (nat mm) (length others))
      \<and> submit_all env rep murl pid uid selected trf = (futures, trs)
    \<longrightarrow> list_all is_result futures
      \<and> (\<forall>i < length selected.
            futures ! i =
              Inr (case checked_json
                          (env (trf @ map (\<lambda>m. create_match_request rep murl pid uid (peer_id m))
                                          (take i selected))
                               (create_match_request rep murl pid uid (peer_id (selected ! i)))) of
                     Inl e \<Rightarrow> None | Inr b \<Rightarrow> Some b))
      \<and> mset (created_of (as_completed order futures)) = mset (created_of futures)
      \<and> generate_matches_for_user_service env rep rnd order MatchGet uid murl purl mm tr =
          except_with reraise_value_wrap_request
            (case validate_all MatchGet (created_of (as_completed order futures)) of
               Inl e \<Rightarrow> Inl e
             | Inr vs \<Rightarrow>
                 Inr \<lparr>message = ''Generated '' @ rep (JInt (int (length vs)))
                                   @ '' matches for user '' @ uid,
                       gm_pool_id = pid, matches_created = length vs, matches = vs\<rparr>,
             trs))
   \<and> (checked_json (env tr (list_matches_request base uid)) = Inr (JList ms)
      \<and> list_all is_dict ms
    \<longrightarrow> (\<exists>ds tr'. get_user_decisions_from_service env rep uid base tr = (Inr ds, tr')
                   \<and> length ds \<le> length ms)
      \<and> get_user_decisions_from_service env rep uid base tr =
          (Inr (decisions_kept env (tr @ [list_matches_request base uid])
                  (decision_calls rep base uid ms)),
           tr @ list_matches_request base uid # decision_calls rep base uid ms))
   \<and> fetch_decision env rep base uid mid t =
       (kept_decision (env t (decision_request rep base mid uid)),
        t @ [decision_request rep base mid uid])
   \<and> (py_get m ''match_id'' JNull = Inr mid \<and> truthy mid
    \<longrightarrow> (fst (fetch_decision env rep base uid mid t) = None \<longleftrightarrow>
           (env t (decision_request rep base mid uid) = NoResponse
            \<or> (\<exists>st b. env t (decision_request rep base mid uid) = Response st b
                       \<and> (st \<noteq> 200 \<or> b = None))))
      \<and> (fst (fetch_decision env rep base uid mid t) = None
          \<longrightarrow> collect_decisions env rep base uid (m # rest) t =
                collect_decisions env rep base uid rest (t @ [decision_request rep base mid uid]))
      \<and> (fst (fetch_decision env rep base uid mid t) = Some d
          \<longrightarrow> collect_decisions env rep base uid (m # rest) t =
                (case collect_decisions env rep base uid rest
                        (t @ [decision_request rep base mid uid]) of
                   (Inl e, t2) \<Rightarrow> (Inl e, t2)
                 | (Inr ds, t2) \<Rightarrow> (Inr (d # ds), t2))))"
proof -
  have gen: "list_all is_result futures
      \<and> (\<forall>i < length selected.
            futures ! i =
              Inr (case checked_json
                          (env (trf @ map (\<lambda>m. create_match_request rep murl pid uid (peer_id m))
                                          (take i selected))
                               (create_match_request rep murl pid uid (peer_id (selected ! i)))) of
                     Inl e \<Rightarrow> None | Inr b \<Rightarrow> Some b))
      \<and> mset (created_of (as_completed order futures)) = mset (created_of futures)
      \<and> generate_matches_for_user_service env rep rnd order MatchGet uid murl purl mm tr =
          except_with reraise_value_wrap_request
            (case validate_all MatchGet (created_of (as_completed order futures)) of
               Inl e \<Rightarrow> Inl e
             | Inr vs \<Rightarrow>
                 Inr \<lparr>message = ''Generated '' @ rep (JInt (int (length vs)))
                                   @ '' matches for user '' @ uid,
                       gm_pool_id = pid, matches_created = length vs, matches = vs\<rparr>,
             trs)"
    if found: "find_other_members env rep uid purl tr = (Inr (pid, others), trf)"
      and some: "others \<noteq> []" and nonneg: "0 \<le> mm"
      and sel: "selected = draw_distinct rnd others (min (nat mm) (length others))"
      and sub: "submit_all env rep murl pid uid selected trf = (futures, trs)"
  proof -
    have dicts: "list_all is_dict others"
      using find_other_members_peers [OF found] by (simp add: list_all_iff)
    have sd: "list_all is_dict selected"
      unfolding sel using dicts by (rule list_all_is_dict_draw)
    have all: "list_all is_result futures"
      and t2: "trs = trf @ map (\<lambda>m. create_match_request rep murl pid uid (peer_id m)) selected"
      using submit_all_dicts [OF sd, of env rep murl pid uid trf] sub by simp_all
    have nth: "\<forall>i < length selected.
            futures ! i =
              Inr (case checked_json
                          (env (trf @ map (\<lambda>m. create_match_request rep murl pid uid (peer_id m))
                                          (take i selected))
                               (create_match_request rep murl pid uid (peer_id (selected ! i)))) of
                     Inl e \<Rightarrow> None | Inr b \<Rightarrow> Some b)"
      using submit_all_nth [OF sd, of _ env rep murl pid uid trf] sub by simp
    have perm: "mset (created_of (as_completed order futures)) = mset (created_of futures)"
      by (rule mset_created_of) (rule mset_as_completed)
    have run: "generate_matches_for_user_service env rep rnd order MatchGet uid murl purl mm tr =
          except_with reraise_value_wrap_request
            (case validate_all MatchGet (created_of (as_completed order futures)) of
               Inl e \<Rightarrow> Inl e
             | Inr vs \<Rightarrow>
                 Inr \<lparr>message = ''Generated '' @ rep (JInt (int (length vs)))
                                   @ '' matches for user '' @ uid,
                       gm_pool_id = pid, matches_created = length vs, matches = vs\<rparr>,
             trs)"
      using sub t2
      by (simp add: generate_matches_unfolded [OF found some nonneg]
            create_matches_unfolded [OF dicts nonneg] sel [symmetric])
    show ?thesis using all nth perm run by blast
  qed
  have dec: "(\<exists>ds tr'. get_user_decisions_from_service env rep uid base tr = (Inr ds, tr')
                   \<and> length ds \<le> length ms)
      \<and> get_user_decisions_from_service env rep uid base tr =
          (Inr (decisions_kept env (tr @ [list_matches_request base uid])
                  (decision_calls rep base uid ms)),
           tr @ list_matches_request base uid # decision_calls rep base uid ms)"
    if listed: "checked_json (env tr (list_matches_request base uid)) = Inr (JList ms)"
      and dicts: "list_all is_dict ms"
  proof -
    have total: "\<exists>ds tr'. get_user_decisions_from_service env rep uid base tr = (Inr ds, tr')
                   \<and> length ds \<le> length ms"
      using listed dicts by (rule get_user_decisions_total)
    have closed: "get_user_decisions_from_service env rep uid base tr =
          (Inr (decisions_kept env (tr @ [list_matches_request base uid])
                  (decision_calls rep base uid ms)),
           tr @ list_matches_request base uid # decision_calls rep base uid ms)"
      using listed dicts by (rule get_user_decisions_closed)
    show ?thesis using total closed by (rule conjI)
  qed
  have kept: "fetch_decision env rep base uid mid t =
       (kept_decision (env t (decision_request rep base mid uid)),
        t @ [decision_request rep base mid uid])"
    by (rule fetch_decision_kept)
  have skip: "collect_decisions env rep base uid (m # rest) t =
                collect_decisions env rep base uid rest (t @ [decision_request rep base mid uid])"
    if "py_get m ''match_id'' JNull = Inr mid" and "truthy mid"
      and "fst (fetch_decision env rep base uid mid t) = None"
    using that by (rule collect_decisions_skip)
  have keep: "collect_decisions env rep base uid (m # rest) t =
                (case collect_decisions env rep base uid rest
                        (t @ [decision_request rep base mid uid]) of
                   (Inl e, t2) \<Rightarrow> (Inl e, t2)
                 | (Inr ds, t2) \<Rightarrow> (Inr (d # ds), t2))"
    if "py_get m ''match_id'' JNull = Inr mid" and "truthy mid"
      and "fst (fetch_decision env rep base uid mid t) = Some d"
    using that by (rule collect_decisions_keep)
  show ?thesis
    using gen dec kept skip keep fetch_decision_None [of env rep base uid mid t] by blast
qed

theorem partial_failures_are_skipped_witness:
  "find_other_members nyc_upstream py_print ''u1'' ''P'' [] =
     (Inr (JStr ''p1'', [JObj [(''user_id'', JStr ''u2'')], JObj [(''user_id'', JStr ''u3'')]]),
      [members_lookup_request ''P'' ''u1'', pool_details_request py_print ''P'' (JStr ''p1''),
       pool_members_request py_print ''P'' (JStr ''p1'')])
   \<and> [JObj [(''user_id'', JStr ''u2'')], JObj [(''user_id'', JStr ''u3'')]] \<noteq> []
   \<and> (0::int) \<le> 10
   \<and> [JObj [(''user_id'', JStr ''u2'')], JObj [(''user_id'', JStr ''u3'')]] =
       draw_distinct first_draws [JObj [(''user_id'', JStr ''u2'')], JObj [(''user_id'', JStr ''u3'')]]
         (min (nat 10) (length [JObj [(''user_id'', JStr ''u2'')], JObj [(''user_id'', JStr ''u3'')]]))
   \<and> submit_all nyc_upstream py_print ''M'' (JStr ''p1'') ''u1''
        [JObj [(''user_id'', JStr ''u2'')], JObj [(''user_id'', JStr ''u3'')]]
        [members_lookup_request ''P'' ''u1'', pool_details_request py_print ''P'' (JStr ''p1''),
         pool_members_request py_print ''P'' (JStr ''p1'')] =
       ([Inr (Some (JObj [(''match_id'', JStr ''m12''), (''user1_id'', JStr ''u1''),
                          (''user2_id'', JStr ''u2'')])),
         Inr None],
        [members_lookup_request ''P'' ''u1'', pool_details_request py_print ''P'' (JStr ''p1''),
         pool_members_request py_print ''P'' (JStr ''p1''),
         create_match_request py_print ''M'' (JStr ''p1'') ''u1'' (JStr ''u2''),
         create_match_request py_print ''M'' (JStr ''p1'') ''u1'' (JStr ''u3'')])
   \<and> (1::nat) < length [JObj [(''user_id'', JStr ''u2'')], JObj [(''user_id'', JStr ''u3'')]]
   \<and> checked_json
        (nyc_upstream
           [members_lookup_request ''P'' ''u1'', pool_details_request py_print ''P'' (JStr ''p1''),
            pool_members_request py_print ''P'' (JStr ''p1''),
            create_match_request py_print ''M'' (JStr ''p1'') ''u1'' (JStr ''u2'')]
           (create_match_request py_print ''M'' (JStr ''p1'') ''u1'' (JStr ''u3''))) =
       Inl (HTTPError 409)
   \<and> generate_matches_for_user_service nyc_upstream py_print first_draws first_draws accept_with_id
        ''u1'' ''M'' ''P'' 10 [] =
      (Inr \<lparr>message = ''Generated 1 matches for user u1'', gm_pool_id = JStr ''p1'',
            matches_created = 1,
            matches = [[(''match_id'', JStr ''m12''), (''user1_id'', JStr ''u1''),
                        (''user2_id'', JStr ''u2'')]]\<rparr>,
       [members_lookup_request ''P'' ''u1'', pool_details_request py_print ''P'' (JStr ''p1''),
        pool_members_request py_print ''P'' (JStr ''p1''),
        create_match_request py_print ''M'' (JStr ''p1'') ''u1'' (JStr ''u2''),
        create_match_request py_print ''M'' (JStr ''p1'') ''u1'' (JStr ''u3'')])
   \<and> checked_json (nyc_upstream [] (list_matches_request ''M'' ''u1'')) =
       Inr (JList [JObj [(''match_id'', JStr ''m1'')], JObj [(''match_id'', JStr ''m2'')]])
   \<and> list_all is_dict [JObj [(''match_id'', JStr ''m1'')], JObj [(''match_id'', JStr ''m2'')]]
   \<and> get_user_decisions_from_service nyc_upstream py_print ''u1'' ''M'' [] =
       (Inr [JObj [(''match_id'', JStr ''m1''), (''user_id'', JStr ''u1''),
                   (''decision'', JStr ''accept'')]],
        [list_matches_request ''M'' ''u1'', decision_request py_print ''M'' (JStr ''m1'') ''u1'',
         decision_request py_print ''M'' (JStr ''m2'') ''u1''])
   \<and> py_get (JObj [(''match_id'', JStr ''m2'')]) ''match_id'' JNull = Inr (JStr ''m2'')
   \<and> truthy (JStr ''m2'')
   \<and> nyc_upstream [list_matches_request ''M'' ''u1'',
                     decision_request py_print ''M'' (JStr ''m1'') ''u1'']
        (decision_request py_print ''M'' (JStr ''m2'') ''u1'') = Response 404 None
   \<and> collect_decisions nyc_upstream py_print ''M'' ''u1'' [JObj [(''match_id'', JStr ''m2'')]]
        [list_matches_request ''M'' ''u1'', decision_request py_print ''M'' (JStr ''m1'') ''u1''] =
       collect_decisions nyc_upstream py_print ''M'' ''u1'' []
        ([list_matches_request ''M'' ''u1'', decision_request py_print ''M'' (JStr ''m1'') ''u1'']
         @ [decision_request py_print ''M'' (JStr ''m2'') ''u1''])
   \<and> py_get (JObj [(''match_id'', JStr ''m1'')]) ''match_id'' JNull = Inr (JStr ''m1'')
   \<and> truthy (JStr ''m1'')
   \<and> fst (fetch_decision nyc_upstream py_print ''M'' ''u1'' (JStr ''m1'')
             [list_matches_request ''M'' ''u1'']) =
       Some (JObj [(''match_id'', JStr ''m1''), (''user_id'', JStr ''u1''),
                   (''decision'', JStr ''accept'')])
   \<and> checked_json (decisions_upstream [] (list_matches_request ''M'' ''u1'')) =
       Inr (JList listed_matches)
   \<and> list_all is_dict listed_matches
   \<and> decision_calls py_print ''M'' ''u1'' listed_matches =
       [decision_request py_print ''M'' (JStr ''m1'') ''u1'',
        decision_request py_print ''M'' (JStr ''m2'') ''u1'',
        decision_request py_print ''M'' (JStr ''m3'') ''u1'',
        decision_request py_print ''M'' (JStr ''m4'') ''u1'']
   \<and> kept_decision (decisions_upstream [list_matches_request ''M'' ''u1'']
                      (decision_request py_print ''M'' (JStr ''m1'') ''u1'')) = None
   \<and> decisions_kept decisions_upstream ([] @ [list_matches_request ''M'' ''u1''])
        (decision_calls py_print ''M'' ''u1'' listed_matches) =
       [JObj [(''match_id'', JStr ''m2''), (''user_id'', JStr ''u1''),
              (''decision'', JStr ''accept'')],
        JObj [(''match_id'', JStr ''m4''), (''user_id'', JStr ''u1''),
              (''decision'', JStr ''reject'')]]
   \<and> get_user_decisions_from_service decisions_upstream py_print ''u1'' ''M'' [] =
       (Inr [JObj [(''match_id'', JStr ''m2''), (''user_id'', JStr ''u1''),
                   (''decision'', JStr ''accept'')],
             JObj [(''match_id'', JStr ''m4''), (''user_id'', JStr ''u1''),
                   (''decision'', JStr ''reject'')]],
        [list_matches_request ''M'' ''u1'',
         decision_request py_print ''M'' (JStr ''m1'') ''u1'',
         decision_request py_print ''M'' (JStr ''m2'') ''u1'',
         decision_request py_print ''M'' (JStr ''m3'') ''u1'',
         decision_request py_print ''M'' (JStr ''m4'') ''u1''])"
proof -
  let ?u2 = "JObj [(''user_id'', JStr ''u2'')]" and ?u3 = "JObj [(''user_id'', JStr ''u3'')]"
  let ?m1 = "JObj [(''match_id'', JStr ''m1'')]" and ?m2 = "JObj [(''match_id'', JStr ''m2'')]"
  let ?d1 = "JObj [(''match_id'', JStr ''m1''), (''user_id'', JStr ''u1''),
                   (''decision'', JStr ''accept'')]"
  let ?tr3 = "[members_lookup_request ''P'' ''u1'', pool_details_request py_print ''P'' (JStr ''p1''),
               pool_members_request py_print ''P'' (JStr ''p1'')]"
  let ?t1 = "[list_matches_request ''M'' ''u1'']"
  let ?t2 = "[list_matches_request ''M'' ''u1'', decision_request py_print ''M'' (JStr ''m1'') ''u1'']"
  have some: "[?u2, ?u3] \<noteq> []" by simp
  have ten: "(0::int) \<le> 10" by simp
  have sel: "[?u2, ?u3] = draw_distinct first_draws [?u2, ?u3] (min (nat 10) (length [?u2, ?u3]))"
    by code_simp
  have sub: "submit_all nyc_upstream py_print ''M'' (JStr ''p1'') ''u1'' [?u2, ?u3] ?tr3 =
       ([Inr (Some (JObj [(''match_id'', JStr ''m12''), (''user1_id'', JStr ''u1''),
                          (''user2_id'', JStr ''u2'')])),
         Inr None],
        ?tr3 @ [create_match_request py_print ''M'' (JStr ''p1'') ''u1'' (JStr ''u2''),
                create_match_request py_print ''M'' (JStr ''p1'') ''u1'' (JStr ''u3'')])"
    by code_simp
  have one: "(1::nat) < length [?u2, ?u3]" by simp
  have refused: "checked_json
        (nyc_upstream (?tr3 @ [create_match_request py_print ''M'' (JStr ''p1'') ''u1'' (JStr ''u2'')])
           (create_match_request py_print ''M'' (JStr ''p1'') ''u1'' (JStr ''u3''))) =
       Inl (HTTPError 409)"
    by code_simp
  have listed: "checked_json (nyc_upstream [] (list_matches_request ''M'' ''u1'')) =
       Inr (JList [?m1, ?m2])"
    by code_simp
  have dicts: "list_all is_dict [?m1, ?m2]" by simp
  have g2: "py_get ?m2 ''match_id'' JNull = Inr (JStr ''m2'')" by simp
  have t2: "truthy (JStr ''m2'')" by simp
  have nf: "nyc_upstream ?t2 (decision_request py_print ''M'' (JStr ''m2'') ''u1'') = Response 404 None"
    by code_simp
  have g1: "py_get ?m1 ''match_id'' JNull = Inr (JStr ''m1'')" by simp
  have t1: "truthy (JStr ''m1'')" by simp
  have f1: "fst (fetch_decision nyc_upstream py_print ''M'' ''u1'' (JStr ''m1'') ?t1) = Some ?d1"
    by code_simp
  have dec: "get_user_decisions_from_service nyc_upstream py_print ''u1'' ''M'' [] =
       (Inr [?d1], [list_matches_request ''M'' ''u1'',
                    decision_request py_print ''M'' (JStr ''m1'') ''u1'',
                    decision_request py_print ''M'' (JStr ''m2'') ''u1''])"
    by code_simp
  note w = partial_failures_are_skipped [where env = nyc_upstream and rep = py_print
      and uid = "''u1''" and purl = "''P''" and tr = "[]" and pid = "JStr ''p1''"
      and others = "[?u2, ?u3]" and trf = ?tr3 and mm = 10 and selected = "[?u2, ?u3]"
      and rnd = first_draws and murl = "''M''" and order = first_draws
      and MatchGet = accept_with_id and base = "''M''" and ms = "[?m1, ?m2]"
      and m = ?m2 and mid = "JStr ''m2''" and t = ?t2 and rest = "[]"]
  have futures: "list_all is_result
       [Inr (Some (JObj [(''match_id'', JStr ''m12''), (''user1_id'', JStr ''u1''),
                         (''user2_id'', JStr ''u2'')])),
        Inr None]"
    using w nyc_found some ten sel sub by blast
  have skip: "collect_decisions nyc_upstream py_print ''M'' ''u1'' [?m2] ?t2 =
       collect_decisions nyc_upstream py_print ''M'' ''u1'' []
         (?t2 @ [decision_request py_print ''M'' (JStr ''m2'') ''u1''])"
    using w g2 t2 nf by blast
  let ?d2 = "JObj [(''match_id'', JStr ''m2''), (''user_id'', JStr ''u1''),
                   (''decision'', JStr ''accept'')]"
  let ?d4 = "JObj [(''match_id'', JStr ''m4''), (''user_id'', JStr ''u1''),
                   (''decision'', JStr ''reject'')]"
  let ?calls = "[decision_request py_print ''M'' (JStr ''m1'') ''u1'',
                 decision_request py_print ''M'' (JStr ''m2'') ''u1'',
                 decision_request py_print ''M'' (JStr ''m3'') ''u1'',
                 decision_request py_print ''M'' (JStr ''m4'') ''u1'']"
  have listed_d: "checked_json (decisions_upstream [] (list_matches_request ''M'' ''u1'')) =
       Inr (JList listed_matches)"
    by code_simp
  have dicts_d: "list_all is_dict listed_matches" by code_simp
  have calls: "decision_calls py_print ''M'' ''u1'' listed_matches = ?calls" by code_simp
  have lost: "kept_decision (decisions_upstream ?t1
                 (decision_request py_print ''M'' (JStr ''m1'') ''u1'')) = None"
    by code_simp
  have kept: "decisions_kept decisions_upstream ([] @ ?t1)
                (decision_calls py_print ''M'' ''u1'' listed_matches) = [?d2, ?d4]"
    by code_simp
  note v = partial_failures_are_skipped [where env = decisions_upstream and rep = py_print
      and uid = "''u1''" and tr = "[]" and base = "''M''" and ms = listed_matches]
  have closed: "get_user_decisions_from_service decisions_upstream py_print ''u1'' ''M'' [] =
       (Inr (decisions_kept decisions_upstream ([] @ ?t1)
               (decision_calls py_print ''M'' ''u1'' listed_matches)),
        [] @ list_matches_request ''M'' ''u1'' # decision_calls py_print ''M'' ''u1'' listed_matches)"
    using v listed_d dicts_d by blast
  have kept_calls: "decisions_kept decisions_upstream ?t1 ?calls = [?d2, ?d4]"
    by code_simp
  have dec_d: "get_user_decisions_from_service decisions_upstream py_print ''u1'' ''M'' [] =
       (Inr [?d2, ?d4], list_matches_request ''M'' ''u1'' # ?calls)"
    using closed by (simp add: calls kept_calls)
  show ?thesis
    using nyc_found some ten sel sub one refused nyc_generate listed dicts dec g2 t2 nf skip
      g1 t1 f1 futures listed_d dicts_d calls lost kept dec_d
    by simp
qed

end
